theory Spec2Isabelle
  imports Complex_Main "HOL-Library.Word" "HOL-Library.Sublist"
begin

section \<open>JavaScript strings\<close>

text \<open>
  A JavaScript string is a sequence of 16-bit UTF-16 code units. Every operation of the
  handlers (\<^verbatim>\<open>replace\<close>, \<^verbatim>\<open>trim\<close>, the e-mail pattern) works on code units, so a
  string is a list of 16-bit words. \<open>asc\<close> embeds an ASCII literal.
\<close>

type_synonym jschar = "16 word"
type_synonym jsstring = "jschar list"

definition asc :: "string \<Rightarrow> jsstring" where
  "asc s = map of_char s"

text \<open>
  \<^verbatim>\<open>text.replace(/c/g, r)\<close> for a pattern that is one literal character: every
  occurrence of \<open>c\<close> is replaced by \<open>r\<close>, in one pass from left to right over the
  subject; the text inserted is not scanned again.
\<close>

definition replace_all :: "jschar \<Rightarrow> jsstring \<Rightarrow> jsstring \<Rightarrow> jsstring" where
  "replace_all c r s = concat (map (\<lambda>x. if x = c then r else [x]) s)"

text \<open>
  The code units that \<^verbatim>\<open>String.prototype.trim\<close> strips and that \<^verbatim>\<open>\s\<close> matches in a
  pattern: ECMAScript's WhiteSpace and LineTerminator.
\<close>

definition is_js_whitespace :: "jschar \<Rightarrow> bool" where
  "is_js_whitespace c \<longleftrightarrow>
     c \<in> {0x09, 0x0A, 0x0B, 0x0C, 0x0D, 0x20, 0xA0, 0x1680,
          0x2000, 0x2001, 0x2002, 0x2003, 0x2004, 0x2005, 0x2006, 0x2007, 0x2008,
          0x2009, 0x200A, 0x2028, 0x2029, 0x202F, 0x205F, 0x3000, 0xFEFF}"

definition trim :: "jsstring \<Rightarrow> jsstring" where
  "trim s = rev (dropWhile is_js_whitespace (rev (dropWhile is_js_whitespace s)))"

section \<open>JavaScript values\<close>

text \<open>
  Numbers are kept abstractly: not-a-number, the two infinities (\<open>JInf True\<close> is the
  positive one) and the finite values; the two zeros are one value, since no operation of
  the handlers tells them apart.
\<close>

datatype jsnum = JNaN | JInf bool | JFin rat

text \<open>
  The values the handlers meet: \<^verbatim>\<open>undefined\<close> and whatever \<^verbatim>\<open>JSON.parse\<close> builds. An object
  is the list of its members; a member read takes the first entry of a key.
\<close>

datatype jsval =
    JUndefined
  | JNull
  | JBool bool
  | JNum jsnum
  | JStr jsstring
  | JArr "jsval list"
  | JObj "(jsstring \<times> jsval) list"

text \<open>An exception in flight is the \<^verbatim>\<open>message\<close> of its error object.\<close>

datatype js_error = Thrown (error_message: jsstring)

text \<open>The ways the engine itself raises an error in the handlers.\<close>

datatype fault =
    ReadOfNullish jsstring  \<comment> \<open>a member of \<^verbatim>\<open>undefined\<close> or \<^verbatim>\<open>null\<close> is read\<close>
  | NotAFunction jsstring   \<comment> \<open>a member that is not a function is called\<close>
  | InvalidJson jsstring    \<comment> \<open>\<^verbatim>\<open>JSON.parse\<close> rejects the text\<close>

text \<open>
  What the platform supplies and the repository does not define: \<^verbatim>\<open>JSON.parse\<close>
  (\<open>None\<close> when it throws a SyntaxError), the conversions between numbers and strings, the
  text of the engine's own TypeErrors, the clock rendered by
  \<^verbatim>\<open>new Date().toLocaleString('ru-RU', ...)\<close>, and \<^verbatim>\<open>fetch\<close> followed by
  \<^verbatim>\<open>response.json()\<close>: given the URL and the members of the JSON request body it
  either rejects (\<open>Inl\<close>, the message of the error) or yields the parsed reply.
\<close>

record runtime =
  json_parse :: "jsstring \<Rightarrow> jsval option"
  number_to_string :: "jsnum \<Rightarrow> jsstring"
  string_to_number :: "jsstring \<Rightarrow> jsnum"
  fault_message :: "fault \<Rightarrow> jsstring"
  locale_date_time :: jsstring
  fetch_json :: "jsstring \<Rightarrow> (jsstring \<times> jsval) list \<Rightarrow> jsstring + jsval"

text \<open>Truthiness, as \<^verbatim>\<open>!x\<close>, \<^verbatim>\<open>x && y\<close>, \<^verbatim>\<open>x || y\<close> and \<^verbatim>\<open>if (x)\<close> test it.\<close>

fun truthy :: "jsval \<Rightarrow> bool" where
  "truthy JUndefined = False"
| "truthy JNull = False"
| "truthy (JBool b) = b"
| "truthy (JNum n) = (n \<noteq> JNaN \<and> n \<noteq> JFin 0)"
| "truthy (JStr s) = (s \<noteq> [])"
| "truthy (JArr xs) = True"
| "truthy (JObj fs) = True"

text \<open>\<^verbatim>\<open>a || b\<close>\<close>

definition js_or :: "jsval \<Rightarrow> jsval \<Rightarrow> jsval" where
  "js_or a b = (if truthy a then a else b)"

text \<open>\<^verbatim>\<open>Array.prototype.join\<close> with a comma, on elements already converted.\<close>

fun join_comma :: "jsstring list \<Rightarrow> jsstring" where
  "join_comma [] = []"
| "join_comma [s] = s"
| "join_comma (s # t # ss) = s @ [0x2C] @ join_comma (t # ss)"

text \<open>
  The conversion to a string that \<^verbatim>\<open>String(x)\<close>, a template literal and
  \<^verbatim>\<open>RegExp.prototype.test\<close> apply. An array joins its elements with commas, an empty
  text standing for \<^verbatim>\<open>null\<close> and \<^verbatim>\<open>undefined\<close> elements; a plain object reads
  \<^verbatim>\<open>[object Object]\<close>.
\<close>

fun to_string :: "runtime \<Rightarrow> jsval \<Rightarrow> jsstring" where
  "to_string rt JUndefined = asc ''undefined''"
| "to_string rt JNull = asc ''null''"
| "to_string rt (JBool b) = (if b then asc ''true'' else asc ''false'')"
| "to_string rt (JNum n) = number_to_string rt n"
| "to_string rt (JStr s) = s"
| "to_string rt (JArr xs) =
     join_comma (map (\<lambda>x. if x = JUndefined \<or> x = JNull then [] else to_string rt x) xs)"
| "to_string rt (JObj fs) = asc ''[object Object]''"

text \<open>
  A member read \<^verbatim>\<open>x.k\<close>, also the one a destructuring pattern makes. \<open>get_member\<close>
  throws on \<^verbatim>\<open>undefined\<close> and \<^verbatim>\<open>null\<close>; \<open>member_of\<close> is the read where the
  value is known to be neither. On a string, number, boolean or array it yields
  \<^verbatim>\<open>undefined\<close> for each key the handlers read this way (\<^verbatim>\<open>name\<close>, \<^verbatim>\<open>email\<close>,
  \<^verbatim>\<open>company\<close>, \<^verbatim>\<open>message\<close>, \<^verbatim>\<open>ok\<close>, \<^verbatim>\<open>result\<close>, \<^verbatim>\<open>message_id\<close>,
  \<^verbatim>\<open>description\<close>, \<^verbatim>\<open>error_code\<close>): none of them is a property of those prototypes.
\<close>

fun member_of :: "jsval \<Rightarrow> jsstring \<Rightarrow> jsval" where
  "member_of (JObj fs) k = (case map_of fs k of None \<Rightarrow> JUndefined | Some v \<Rightarrow> v)"
| "member_of v k = JUndefined"

definition get_member :: "runtime \<Rightarrow> jsval \<Rightarrow> jsstring \<Rightarrow> js_error + jsval" where
  "get_member rt v k =
     (if v = JUndefined \<or> v = JNull then Inl (Thrown (fault_message rt (ReadOfNullish k)))
      else Inr (member_of v k))"

section \<open>Escaping and formatting\<close>

text \<open>
  \<^verbatim>\<open>
  function escapeHtml(text) {
      if (!text) return '';
      return String(text)
          .replace(/&/g, '&amp;')
          .replace(/</g, '&lt;')
          .replace(/>/g, '&gt;')
          .replace(/"/g, '&quot;')
          .replace(/'/g, '&#039;');
  }
  \<close>
  The same text in every variant. The characters are \<open>0x26\<close> (ampersand), \<open>0x3C\<close>
  (less-than), \<open>0x3E\<close> (greater-than), \<open>0x22\<close> (double quote), \<open>0x27\<close> (apostrophe).
\<close>

definition escapeHtml :: "runtime \<Rightarrow> jsval \<Rightarrow> jsstring" where
  "escapeHtml rt text =
     (if \<not> truthy text then []
      else replace_all 0x27 (asc ''&#039;'')
            (replace_all 0x22 (asc ''&quot;'')
              (replace_all 0x3E (asc ''&gt;'')
                (replace_all 0x3C (asc ''&lt;'')
                  (replace_all 0x26 (asc ''&amp;'') (to_string rt text))))))"

text \<open>
  \<^verbatim>\<open>company && company.trim()\<close>, as the condition of the \<^verbatim>\<open>if\<close>: a falsy company
  is not asked for \<^verbatim>\<open>trim\<close>; a truthy one that is not a string has no such method, and
  the call throws.
\<close>

definition company_given :: "runtime \<Rightarrow> jsval \<Rightarrow> js_error + bool" where
  "company_given rt company =
     (if \<not> truthy company then Inr False
      else case company of
             JStr s \<Rightarrow> Inr (trim s \<noteq> [])
           | _ \<Rightarrow> Inl (Thrown (fault_message rt (NotAFunction (asc ''trim'')))))"

text \<open>The fixed pieces of the template literals, as code units.\<close>

definition title_line :: jsstring where
  "title_line = [0xD83C, 0xDFAF] @ asc '' <b>'' @ [0x41D, 0x43E, 0x432, 0x430, 0x44F] @ asc '' ''
     @ [0x437, 0x430, 0x44F, 0x432, 0x43A, 0x430] @ asc '' '' @ [0x441] @ asc '' ''
     @ [0x441, 0x430, 0x439, 0x442, 0x430] @ asc '' ''
     @ [0x41A, 0x430, 0x441, 0x441, 0x438, 0x43E, 0x43F, 0x435, 0x44F] @ asc '' AI</b>''
     @ [0x0A, 0x0A]"

definition name_label :: jsstring where
  "name_label = [0xD83D, 0xDC64] @ asc '' <b>'' @ [0x418, 0x43C, 0x44F] @ asc '':</b> ''"

definition email_label :: jsstring where
  "email_label = [0xD83D, 0xDCE7] @ asc '' <b>Email:</b> ''"

definition company_label :: jsstring where
  "company_label = [0xD83C, 0xDFE2] @ asc '' <b>''
     @ [0x41A, 0x43E, 0x43C, 0x43F, 0x430, 0x43D, 0x438, 0x44F] @ asc '':</b> ''"

definition message_label :: jsstring where
  "message_label = [0x0A, 0xD83D, 0xDCAC] @ asc '' <b>''
     @ [0x421, 0x43E, 0x43E, 0x431, 0x449, 0x435, 0x43D, 0x438, 0x435] @ asc '':</b>'' @ [0x0A]"

definition sent_label :: jsstring where
  "sent_label = [0xD83D, 0xDCC5] @ asc '' <b>''
     @ [0x41E, 0x442, 0x43F, 0x440, 0x430, 0x432, 0x43B, 0x435, 0x43D, 0x43E] @ asc '':</b> ''"

text \<open>
  \<^verbatim>\<open>
  function formatTelegramMessage(name, email, company, message) {
      const now = new Date();
      const dateTime = now.toLocaleString('ru-RU', {...});
      let formattedMessage = `<title>\n\n`;
      formattedMessage += `<name label> ${escapeHtml(name)}\n`;
      formattedMessage += `<email label> ${escapeHtml(email)}\n`;
      if (company && company.trim()) {
          formattedMessage += `<company label> ${escapeHtml(company)}\n`;
      }
      formattedMessage += `\n<message label>\n${escapeHtml(message)}\n\n`;
      formattedMessage += `<sent label> ${dateTime}`;
      return formattedMessage;
  }
  \<close>
  The same text in every variant.
\<close>

definition formatTelegramMessage ::
  "runtime \<Rightarrow> jsval \<Rightarrow> jsval \<Rightarrow> jsval \<Rightarrow> jsval \<Rightarrow> js_error + jsstring" where
  "formatTelegramMessage rt name email company message =
     (let dateTime = locale_date_time rt;
          formattedMessage = title_line;
          formattedMessage = formattedMessage @ name_label @ escapeHtml rt name @ [0x0A];
          formattedMessage = formattedMessage @ email_label @ escapeHtml rt email @ [0x0A]
      in case company_given rt company of
           Inl e \<Rightarrow> Inl e
         | Inr given \<Rightarrow>
             let formattedMessage =
                   (if given
                    then formattedMessage @ company_label @ escapeHtml rt company @ [0x0A]
                    else formattedMessage);
                 formattedMessage =
                   formattedMessage @ message_label @ escapeHtml rt message @ [0x0A, 0x0A];
                 formattedMessage = formattedMessage @ sent_label @ dateTime
             in Inr formattedMessage)"

section \<open>The e-mail pattern\<close>

text \<open>
  Regular expressions over code units, with the constructs the pattern needs, and
  matching by derivatives: \<open>after_char r c\<close> matches what \<open>r\<close> matches after a
  leading \<open>c\<close>.
\<close>

datatype rexp =
    Never
  | Empty
  | Cls "jschar \<Rightarrow> bool"
  | Alt rexp rexp
  | Seq rexp rexp
  | Star rexp

fun accepts_empty :: "rexp \<Rightarrow> bool" where
  "accepts_empty Never = False"
| "accepts_empty Empty = True"
| "accepts_empty (Cls p) = False"
| "accepts_empty (Alt r s) = (accepts_empty r \<or> accepts_empty s)"
| "accepts_empty (Seq r s) = (accepts_empty r \<and> accepts_empty s)"
| "accepts_empty (Star r) = True"

fun after_char :: "rexp \<Rightarrow> jschar \<Rightarrow> rexp" where
  "after_char Never c = Never"
| "after_char Empty c = Never"
| "after_char (Cls p) c = (if p c then Empty else Never)"
| "after_char (Alt r s) c = Alt (after_char r c) (after_char s c)"
| "after_char (Seq r s) c =
     (if accepts_empty r then Alt (Seq (after_char r c) s) (after_char s c)
      else Seq (after_char r c) s)"
| "after_char (Star r) c = Seq (after_char r c) (Star r)"

text \<open>
  \<^verbatim>\<open>regex.test(x)\<close> for a pattern anchored by \<^verbatim>\<open>^\<close> and \<^verbatim>\<open>$\<close> and without flags:
  the whole subject has to match.
\<close>

definition regex_test :: "rexp \<Rightarrow> jsstring \<Rightarrow> bool" where
  "regex_test r s = accepts_empty (foldl after_char r s)"

definition one_or_more :: "rexp \<Rightarrow> rexp" where
  "one_or_more r = Seq r (Star r)"

text \<open>
  \<^verbatim>\<open>const emailRegex = /^[^\s@]+@[^\s@]+\.[^\s@]+$/;\<close> (\<open>0x40\<close> is the at sign, \<open>0x2E\<close>
  the full stop).
\<close>

definition not_space_or_at :: rexp where
  "not_space_or_at = Cls (\<lambda>c. \<not> is_js_whitespace c \<and> c \<noteq> 0x40)"

definition emailRegex :: rexp where
  "emailRegex =
     Seq (one_or_more not_space_or_at)
       (Seq (Cls (\<lambda>c. c = 0x40))
         (Seq (one_or_more not_space_or_at)
           (Seq (Cls (\<lambda>c. c = 0x2E))
             (one_or_more not_space_or_at))))"

section \<open>Requests, responses and effects\<close>

text \<open>\<^verbatim>\<open>process.env\<close>: a variable is a string or is not set.\<close>

record env =
  TELEGRAM_BOT_TOKEN :: "jsstring option"
  TELEGRAM_CHAT_ID :: "jsstring option"
  TELEGRAM_TOPIC_ID :: "jsstring option"
  NODE_ENV :: "jsstring option"

definition env_value :: "jsstring option \<Rightarrow> jsval" where
  "env_value v = (case v of None \<Rightarrow> JUndefined | Some s \<Rightarrow> JStr s)"

text \<open>The Netlify \<^verbatim>\<open>event\<close>: the fields the handlers read.\<close>

record event =
  httpMethod :: jsstring
  body :: jsval

text \<open>
  The Vercel \<^verbatim>\<open>req\<close>: the fields that decide the response. The CORS-aware variant also
  prints \<^verbatim>\<open>req.url\<close> and three headers, which changes nothing below.
\<close>

record req =
  req_method :: jsstring
  req_body :: jsval

text \<open>
  A response: the status, the headers set with \<^verbatim>\<open>res.setHeader\<close>, and the body. A JSON
  body is kept as the members that \<^verbatim>\<open>JSON.stringify\<close> (Netlify) or \<^verbatim>\<open>res.json\<close>
  (Vercel) write: a member whose value is \<^verbatim>\<open>undefined\<close> is left out. \<open>None\<close> is the
  empty body of \<^verbatim>\<open>res.status(200).end()\<close>.
\<close>

record response =
  statusCode :: nat
  headers :: "(jsstring \<times> jsstring) list"
  json :: "(jsstring \<times> jsval) list option"

definition json_members :: "(string \<times> jsval) list \<Rightarrow> (jsstring \<times> jsval) list" where
  "json_members obj = map (\<lambda>(k, v). (asc k, v)) (filter (\<lambda>(k, v). v \<noteq> JUndefined) obj)"

definition json_response :: "nat \<Rightarrow> (string \<times> jsval) list \<Rightarrow> response" where
  "json_response code obj = \<lparr>statusCode = code, headers = [], json = Some (json_members obj)\<rparr>"

text \<open>What a call leaves behind besides its response: the requests sent and the console.\<close>

type_synonym outbound = "jsstring \<times> (jsstring \<times> jsval) list"

datatype log_entry =
    ConsoleError jsstring
  | ConsoleWarn jsstring
  | ConsoleErrorWith jsstring js_error

record outcome =
  response :: response
  sent :: "outbound list"
  console :: "log_entry list"

section \<open>The forwarder\<close>

text \<open>
  \<^verbatim>\<open>
  async function sendTelegramMessage(botToken, chatId, text, topicId = null) {
      const url = `https://api.telegram.org/bot${botToken}/sendMessage`;
      const requestBody = { chat_id: chatId, text: text, parse_mode: 'HTML',
                            disable_web_page_preview: true };
      if (topicId !== null && !isNaN(topicId)) {
          requestBody.message_thread_id = topicId;
      }
      const response = await fetch(url, {method: 'POST', headers: {...},
                                         body: JSON.stringify(requestBody)});
      return await response.json();
  }
  \<close>
  (netlify/functions/telegram.js). The result is the request made and what came of it.
\<close>

definition telegram_url :: "jsstring \<Rightarrow> jsstring" where
  "telegram_url botToken = asc ''https://api.telegram.org/bot'' @ botToken @ asc ''/sendMessage''"

definition base_request_body :: "jsval \<Rightarrow> jsstring \<Rightarrow> (jsstring \<times> jsval) list" where
  "base_request_body chatId txt =
     [(asc ''chat_id'', chatId), (asc ''text'', JStr txt), (asc ''parse_mode'', JStr (asc ''HTML'')),
      (asc ''disable_web_page_preview'', JBool True)]"

definition sendTelegramMessage_topic ::
  "runtime \<Rightarrow> jsstring \<Rightarrow> jsval \<Rightarrow> jsstring \<Rightarrow> jsnum option \<Rightarrow> outbound \<times> (js_error + jsval)" where
  "sendTelegramMessage_topic rt botToken chatId txt topicId =
     (let url = telegram_url botToken;
          requestBody = base_request_body chatId txt;
          requestBody =
            (case topicId of
               None \<Rightarrow> requestBody
             | Some n \<Rightarrow>
                 if n \<noteq> JNaN then requestBody @ [(asc ''message_thread_id'', JNum n)]
                 else requestBody)
      in ((url, requestBody),
          case fetch_json rt url requestBody of
            Inl m \<Rightarrow> Inl (Thrown m)
          | Inr reply \<Rightarrow> Inr reply))"

text \<open>
  The forwarder of telegram.js and of the plain variant in api/telegram.js: the same
  without the topic.
\<close>

definition sendTelegramMessage ::
  "runtime \<Rightarrow> jsstring \<Rightarrow> jsval \<Rightarrow> jsstring \<Rightarrow> outbound \<times> (js_error + jsval)" where
  "sendTelegramMessage rt botToken chatId txt =
     (let url = telegram_url botToken;
          requestBody = base_request_body chatId txt
      in ((url, requestBody),
          case fetch_json rt url requestBody of
            Inl m \<Rightarrow> Inl (Thrown m)
          | Inr reply \<Rightarrow> Inr reply))"

text \<open>
  The forwarder of the CORS-aware variant in api/telegram.js wraps the call:
  \<^verbatim>\<open>
      try { ... fetch ... return responseData; }
      catch (fetchError) {
          throw new Error(`Failed to call Telegram API: ${fetchError.message}`);
      }
  \<close>
\<close>

definition sendTelegramMessage_cors ::
  "runtime \<Rightarrow> jsstring \<Rightarrow> jsval \<Rightarrow> jsstring \<Rightarrow> outbound \<times> (js_error + jsval)" where
  "sendTelegramMessage_cors rt botToken chatId txt =
     (let url = telegram_url botToken;
          requestBody = base_request_body chatId txt
      in ((url, requestBody),
          case fetch_json rt url requestBody of
            Inl m \<Rightarrow> Inl (Thrown (asc ''Failed to call Telegram API: '' @ m))
          | Inr reply \<Rightarrow> Inr reply))"

section \<open>The handlers\<close>

text \<open>\<^verbatim>\<open>Number(x)\<close>\<close>

fun to_number :: "runtime \<Rightarrow> jsval \<Rightarrow> jsnum" where
  "to_number rt JUndefined = JNaN"
| "to_number rt JNull = JFin 0"
| "to_number rt (JBool b) = (if b then JFin 1 else JFin 0)"
| "to_number rt (JNum n) = n"
| "to_number rt (JStr s) = string_to_number rt s"
| "to_number rt (JArr xs) = string_to_number rt (to_string rt (JArr xs))"
| "to_number rt (JObj fs) = string_to_number rt (to_string rt (JObj fs))"

text \<open>
  The end of the \<^verbatim>\<open>try\<close> block, the same in netlify/functions/telegram.js,
  telegram.js and the plain variant of api/telegram.js:
  \<^verbatim>\<open>
      if (telegramResponse.ok) {
          return { statusCode: 200, body: JSON.stringify({ success: true,
                     message: 'Telegram notification sent successfully',
                     messageId: telegramResponse.result.message_id }) };
      } else {
          throw new Error(`Telegram API error: ${telegramResponse.description || 'Unknown error'}`);
      }
  \<close>
\<close>

definition check_reply :: "runtime \<Rightarrow> jsval \<Rightarrow> js_error + response" where
  "check_reply rt telegramResponse =
     (case get_member rt telegramResponse (asc ''ok'') of
        Inl e \<Rightarrow> Inl e
      | Inr ok \<Rightarrow>
          if truthy ok then
            (case get_member rt (member_of telegramResponse (asc ''result'')) (asc ''message_id'') of
               Inl e \<Rightarrow> Inl e
             | Inr message_id \<Rightarrow>
                 Inr (json_response 200
                   [(''success'', JBool True),
                    (''message'', JStr (asc ''Telegram notification sent successfully'')),
                    (''messageId'', message_id)]))
          else
            Inl (Thrown (asc ''Telegram API error: ''
              @ to_string rt (js_or (member_of telegramResponse (asc ''description''))
                                    (JStr (asc ''Unknown error''))))))"

text \<open>
  The \<^verbatim>\<open>catch\<close> block of the same three variants:
  \<^verbatim>\<open>
      console.error('Error sending Telegram notification:', error);
      return { statusCode: 500, body: JSON.stringify({ success: false,
                 error: 'Failed to send Telegram notification',
                 details: process.env.NODE_ENV === 'development' ? error.message : undefined }) };
  \<close>
\<close>

definition catch_gated ::
  "env \<Rightarrow> (js_error + response) \<times> outbound list \<times> log_entry list \<Rightarrow> outcome" where
  "catch_gated env r =
     (case r of
        (Inr resp, out, con) \<Rightarrow> \<lparr>response = resp, sent = out, console = con\<rparr>
      | (Inl error, out, con) \<Rightarrow>
          \<lparr>response = json_response 500
             [(''success'', JBool False),
              (''error'', JStr (asc ''Failed to send Telegram notification'')),
              (''details'',
                 if NODE_ENV env = Some (asc ''development'') then JStr (error_message error)
                 else JUndefined)],
           sent = out,
           console = con @ [ConsoleErrorWith (asc ''Error sending Telegram notification:'') error]\<rparr>)"

text \<open>
  Early responses with one wording: the first two in every variant, the third in all but
  the CORS-aware one.
\<close>

definition missing_fields :: response where
  "missing_fields = json_response 400
     [(''success'', JBool False),
      (''error'', JStr (asc ''Missing required fields: name, email, message''))]"

definition invalid_email :: response where
  "invalid_email = json_response 400
     [(''success'', JBool False), (''error'', JStr (asc ''Invalid email format''))]"

definition method_not_allowed :: response where
  "method_not_allowed = json_response 405
     [(''success'', JBool False), (''error'', JStr (asc ''Method not allowed. Use POST.''))]"

text \<open>
  netlify/functions/telegram.js, the topic-aware Netlify function: the \<^verbatim>\<open>try\<close> block,
  from \<^verbatim>\<open>JSON.parse(event.body)\<close> to the reply check. \<^verbatim>\<open>JSON.parse\<close> converts its
  argument to a string first. The result is what the block returns or throws, the
  requests sent and the console lines written.
\<close>

definition try_netlify_topic ::
  "runtime \<Rightarrow> env \<Rightarrow> event \<Rightarrow> (js_error + response) \<times> outbound list \<times> log_entry list" where
  "try_netlify_topic rt env ev =
     (case json_parse rt (to_string rt (body ev)) of
        None \<Rightarrow> (Inl (Thrown (fault_message rt (InvalidJson (to_string rt (body ev))))), [], [])
      | Some parsed \<Rightarrow>
          if parsed = JUndefined \<or> parsed = JNull
          then (Inl (Thrown (fault_message rt (ReadOfNullish (asc ''name'')))), [], [])
          else
            let name = member_of parsed (asc ''name'');
                email = member_of parsed (asc ''email'');
                company = member_of parsed (asc ''company'');
                message = member_of parsed (asc ''message'')
            in
            if \<not> truthy name \<or> \<not> truthy email \<or> \<not> truthy message
            then (Inr missing_fields, [], [])
            else if \<not> regex_test emailRegex (to_string rt email)
            then (Inr invalid_email, [], [])
            else
              let BOT_TOKEN = env_value (TELEGRAM_BOT_TOKEN env);
                  CHAT_ID = env_value (TELEGRAM_CHAT_ID env);
                  TOPIC_ID = env_value (TELEGRAM_TOPIC_ID env)
              in
              if \<not> truthy BOT_TOKEN \<or> \<not> truthy CHAT_ID
              then (Inr (json_response 500
                          [(''success'', JBool False),
                           (''error'', JStr (asc ''Telegram bot not configured''))]),
                    [], [ConsoleError (asc ''Telegram configuration missing'')])
              else
                let (topicIdNum, warned) =
                      (if truthy TOPIC_ID
                       then if to_number rt TOPIC_ID = JNaN
                            then (None, [ConsoleWarn
                                    (asc ''Invalid TOPIC_ID format, will send to general chat'')])
                            else (Some (to_number rt TOPIC_ID), [])
                       else (None, []))
                in
                (case formatTelegramMessage rt name email company message of
                   Inl e \<Rightarrow> (Inl e, [], warned)
                 | Inr telegramMessage \<Rightarrow>
                     (case sendTelegramMessage_topic rt (to_string rt BOT_TOKEN) CHAT_ID
                             telegramMessage topicIdNum of
                        (request, Inl e) \<Rightarrow> (Inl e, [request], warned)
                      | (request, Inr telegramResponse) \<Rightarrow>
                          (check_reply rt telegramResponse, [request], warned))))"

definition handler_netlify_topic :: "runtime \<Rightarrow> env \<Rightarrow> event \<Rightarrow> outcome" where
  "handler_netlify_topic rt env ev =
     (if httpMethod ev \<noteq> asc ''POST''
      then \<lparr>response = method_not_allowed, sent = [], console = []\<rparr>
      else catch_gated env (try_netlify_topic rt env ev))"

text \<open>telegram.js, the plain Netlify function: the same without the topic.\<close>

definition try_netlify ::
  "runtime \<Rightarrow> env \<Rightarrow> event \<Rightarrow> (js_error + response) \<times> outbound list \<times> log_entry list" where
  "try_netlify rt env ev =
     (case json_parse rt (to_string rt (body ev)) of
        None \<Rightarrow> (Inl (Thrown (fault_message rt (InvalidJson (to_string rt (body ev))))), [], [])
      | Some parsed \<Rightarrow>
          if parsed = JUndefined \<or> parsed = JNull
          then (Inl (Thrown (fault_message rt (ReadOfNullish (asc ''name'')))), [], [])
          else
            let name = member_of parsed (asc ''name'');
                email = member_of parsed (asc ''email'');
                company = member_of parsed (asc ''company'');
                message = member_of parsed (asc ''message'')
            in
            if \<not> truthy name \<or> \<not> truthy email \<or> \<not> truthy message
            then (Inr missing_fields, [], [])
            else if \<not> regex_test emailRegex (to_string rt email)
            then (Inr invalid_email, [], [])
            else
              let BOT_TOKEN = env_value (TELEGRAM_BOT_TOKEN env);
                  CHAT_ID = env_value (TELEGRAM_CHAT_ID env)
              in
              if \<not> truthy BOT_TOKEN \<or> \<not> truthy CHAT_ID
              then (Inr (json_response 500
                          [(''success'', JBool False),
                           (''error'', JStr (asc ''Telegram bot not configured''))]),
                    [], [ConsoleError (asc ''Telegram configuration missing'')])
              else
                (case formatTelegramMessage rt name email company message of
                   Inl e \<Rightarrow> (Inl e, [], [])
                 | Inr telegramMessage \<Rightarrow>
                     (case sendTelegramMessage rt (to_string rt BOT_TOKEN) CHAT_ID telegramMessage of
                        (request, Inl e) \<Rightarrow> (Inl e, [request], [])
                      | (request, Inr telegramResponse) \<Rightarrow>
                          (check_reply rt telegramResponse, [request], []))))"

definition handler_netlify :: "runtime \<Rightarrow> env \<Rightarrow> event \<Rightarrow> outcome" where
  "handler_netlify rt env ev =
     (if httpMethod ev \<noteq> asc ''POST''
      then \<lparr>response = method_not_allowed, sent = [], console = []\<rparr>
      else catch_gated env (try_netlify rt env ev))"

text \<open>
  api/telegram.js, the second handler in that file: the plain Vercel function. It destructures
  \<^verbatim>\<open>req.body\<close> as the platform hands it over, and names the two variables in its
  not-configured message.
\<close>

definition not_configured_long :: response where
  "not_configured_long = json_response 500
     [(''success'', JBool False),
      (''error'', JStr (asc (''Telegram bot not configured. Please set TELEGRAM_BOT_TOKEN ''
                            @ ''and TELEGRAM_CHAT_ID environment variables.'')))]"

definition try_vercel ::
  "runtime \<Rightarrow> env \<Rightarrow> req \<Rightarrow> (js_error + response) \<times> outbound list \<times> log_entry list" where
  "try_vercel rt env rq =
     (if req_body rq = JUndefined \<or> req_body rq = JNull
      then (Inl (Thrown (fault_message rt (ReadOfNullish (asc ''name'')))), [], [])
      else
        let name = member_of (req_body rq) (asc ''name'');
            email = member_of (req_body rq) (asc ''email'');
            company = member_of (req_body rq) (asc ''company'');
            message = member_of (req_body rq) (asc ''message'')
        in
        if \<not> truthy name \<or> \<not> truthy email \<or> \<not> truthy message
        then (Inr missing_fields, [], [])
        else if \<not> regex_test emailRegex (to_string rt email)
        then (Inr invalid_email, [], [])
        else
          let BOT_TOKEN = env_value (TELEGRAM_BOT_TOKEN env);
              CHAT_ID = env_value (TELEGRAM_CHAT_ID env)
          in
          if \<not> truthy BOT_TOKEN \<or> \<not> truthy CHAT_ID
          then (Inr not_configured_long, [], [ConsoleError (asc ''Telegram configuration missing'')])
          else
            (case formatTelegramMessage rt name email company message of
               Inl e \<Rightarrow> (Inl e, [], [])
             | Inr telegramMessage \<Rightarrow>
                 (case sendTelegramMessage rt (to_string rt BOT_TOKEN) CHAT_ID telegramMessage of
                    (request, Inl e) \<Rightarrow> (Inl e, [request], [])
                  | (request, Inr telegramResponse) \<Rightarrow>
                      (check_reply rt telegramResponse, [request], []))))"

definition handler_vercel :: "runtime \<Rightarrow> env \<Rightarrow> req \<Rightarrow> outcome" where
  "handler_vercel rt env rq =
     (if req_method rq \<noteq> asc ''POST''
      then \<lparr>response = method_not_allowed, sent = [], console = []\<rparr>
      else catch_gated env (try_vercel rt env rq))"

text \<open>
  api/telegram.js, the first handler in that file: the CORS-aware Vercel function. It prints a great deal; the
  console is not recorded for it, only what evaluating the printed expressions can throw.
  A call \<^verbatim>\<open>x.substring(0, 20)\<close> on a value that is no string throws.
\<close>

definition call_substring :: "runtime \<Rightarrow> jsval \<Rightarrow> js_error + unit" where
  "call_substring rt v =
     (case v of
        JStr s \<Rightarrow> Inr ()
      | JUndefined \<Rightarrow> Inl (Thrown (fault_message rt (ReadOfNullish (asc ''substring''))))
      | JNull \<Rightarrow> Inl (Thrown (fault_message rt (ReadOfNullish (asc ''substring''))))
      | _ \<Rightarrow> Inl (Thrown (fault_message rt (NotAFunction (asc ''substring'')))))"

text \<open>
  \<^verbatim>\<open>
      console.log('Form data received:', {
          name: name.substring(0, 20) + '...',
          email: email.substring(0, 20) + '...',
          company: company ? company.substring(0, 20) + '...' : 'not provided',
          messageLength: message.length });
  \<close>
\<close>

definition log_form_data :: "runtime \<Rightarrow> jsval \<Rightarrow> jsval \<Rightarrow> jsval \<Rightarrow> js_error + unit" where
  "log_form_data rt name email company =
     (case call_substring rt name of
        Inl e \<Rightarrow> Inl e
      | Inr _ \<Rightarrow>
          (case call_substring rt email of
             Inl e \<Rightarrow> Inl e
           | Inr _ \<Rightarrow> if truthy company then call_substring rt company else Inr ()))"

text \<open>
  \<^verbatim>\<open>
      console.log('- ok:', telegramResponse.ok); ...
      if (telegramResponse.ok) {
          console.log('- Message ID:', telegramResponse.result.message_id);
          return res.status(200).json({ success: true,
              message: 'Telegram notification sent successfully',
              messageId: telegramResponse.result.message_id });
      } else {
          const errorMsg = `Telegram API error: ${telegramResponse.error_code || 'unknown'} - ${telegramResponse.description || 'Unknown error'}`;
          throw new Error(errorMsg);
      }
  \<close>
\<close>

definition check_reply_cors :: "runtime \<Rightarrow> jsval \<Rightarrow> js_error + response" where
  "check_reply_cors rt telegramResponse =
     (case get_member rt telegramResponse (asc ''ok'') of
        Inl e \<Rightarrow> Inl e
      | Inr ok \<Rightarrow>
          if truthy ok then
            (case get_member rt (member_of telegramResponse (asc ''result'')) (asc ''message_id'') of
               Inl e \<Rightarrow> Inl e
             | Inr message_id \<Rightarrow>
                 Inr (json_response 200
                   [(''success'', JBool True),
                    (''message'', JStr (asc ''Telegram notification sent successfully'')),
                    (''messageId'', message_id)]))
          else
            Inl (Thrown (asc ''Telegram API error: ''
              @ to_string rt (js_or (member_of telegramResponse (asc ''error_code''))
                                    (JStr (asc ''unknown'')))
              @ asc '' - ''
              @ to_string rt (js_or (member_of telegramResponse (asc ''description''))
                                    (JStr (asc ''Unknown error''))))))"

definition try_cors ::
  "runtime \<Rightarrow> env \<Rightarrow> req \<Rightarrow> (js_error + response) \<times> outbound list" where
  "try_cors rt env rq =
     (case (case req_body rq of JStr s \<Rightarrow> json_parse rt s | v \<Rightarrow> Some v) of
        None \<Rightarrow>
          (Inr (json_response 400
                  [(''success'', JBool False),
                   (''error'', JStr (asc ''Invalid JSON in request body''))]), [])
      | Some parsed \<Rightarrow>
          let source = js_or parsed (JObj []);
              name = member_of source (asc ''name'');
              email = member_of source (asc ''email'');
              company = member_of source (asc ''company'');
              message = member_of source (asc ''message'')
          in
          if \<not> truthy name \<or> \<not> truthy email \<or> \<not> truthy message
          then (Inr missing_fields, [])
          else if \<not> regex_test emailRegex (to_string rt email)
          then (Inr invalid_email, [])
          else
            let BOT_TOKEN = env_value (TELEGRAM_BOT_TOKEN env);
                CHAT_ID = env_value (TELEGRAM_CHAT_ID env)
            in
            if \<not> truthy BOT_TOKEN \<or> \<not> truthy CHAT_ID
            then (Inr not_configured_long, [])
            else
              let chatIdNum = to_number rt CHAT_ID in
              if chatIdNum = JNaN
              then (Inr (json_response 500
                           [(''success'', JBool False),
                            (''error'', JStr (asc ''Invalid CHAT_ID format. Must be a number.''))]),
                    [])
              else
                (case log_form_data rt name email company of
                   Inl e \<Rightarrow> (Inl e, [])
                 | Inr _ \<Rightarrow>
                     (case formatTelegramMessage rt name email company message of
                        Inl e \<Rightarrow> (Inl e, [])
                      | Inr telegramMessage \<Rightarrow>
                          (case sendTelegramMessage_cors rt (to_string rt BOT_TOKEN)
                                  (JNum chatIdNum) telegramMessage of
                             (request, Inl e) \<Rightarrow> (Inl e, [request])
                           | (request, Inr telegramResponse) \<Rightarrow>
                               (check_reply_cors rt telegramResponse, [request])))))"

definition cors_headers :: "(jsstring \<times> jsstring) list" where
  "cors_headers =
     [(asc ''Access-Control-Allow-Origin'', asc ''*''),
      (asc ''Access-Control-Allow-Methods'', asc ''POST, OPTIONS''),
      (asc ''Access-Control-Allow-Headers'', asc ''Content-Type, Authorization''),
      (asc ''Access-Control-Max-Age'', asc ''86400'')]"

text \<open>
  The headers are set before anything else, so every response carries them. The
  \<^verbatim>\<open>catch\<close> block of this variant:
  \<^verbatim>\<open>
      return res.status(500).json({ success: false,
          error: 'Failed to send Telegram notification',
          details: error.message || 'Unknown error',
          errorCode: error.code });
  \<close>
  No error that reaches it has a \<^verbatim>\<open>code\<close>: each is a fresh \<^verbatim>\<open>Error\<close> or an engine
  TypeError.
\<close>

definition handler_cors :: "runtime \<Rightarrow> env \<Rightarrow> req \<Rightarrow> response \<times> outbound list" where
  "handler_cors rt env rq =
     (if req_method rq = asc ''OPTIONS''
      then (\<lparr>statusCode = 200, headers = cors_headers, json = None\<rparr>, [])
      else if req_method rq \<noteq> asc ''POST''
      then ((json_response 405
               [(''success'', JBool False),
                (''error'', JStr (asc ''Method not allowed. Use POST. Received: '' @ req_method rq))])
             \<lparr>headers := cors_headers\<rparr>, [])
      else
        (case try_cors rt env rq of
           (Inr resp, out) \<Rightarrow> (resp\<lparr>headers := cors_headers\<rparr>, out)
         | (Inl error, out) \<Rightarrow>
             ((json_response 500
                 [(''success'', JBool False),
                  (''error'', JStr (asc ''Failed to send Telegram notification'')),
                  (''details'', js_or (JStr (error_message error)) (JStr (asc ''Unknown error''))),
                  (''errorCode'', JUndefined)])
               \<lparr>headers := cors_headers\<rparr>, out)))"

section \<open>The vocabulary of the claims\<close>

text \<open>
  What the specification asks of the escaping, in its own words: each of the five
  characters stands in the result as its entity, every other character as itself.
\<close>

definition entity :: "jschar \<Rightarrow> jsstring" where
  "entity c =
     (if c = 0x26 then asc ''&amp;''
      else if c = 0x3C then asc ''&lt;''
      else if c = 0x3E then asc ''&gt;''
      else if c = 0x22 then asc ''&quot;''
      else if c = 0x27 then asc ''&#039;''
      else [c])"

definition escaped :: "jsstring \<Rightarrow> jsstring" where
  "escaped s = concat (map entity s)"

definition special_chars :: "jschar set" where
  "special_chars = {0x26, 0x3C, 0x3E, 0x22, 0x27}"

text \<open>A company that is present and not purely whitespace.\<close>

definition company_text :: "jsstring option \<Rightarrow> jsval" where
  "company_text c = (case c of None \<Rightarrow> JUndefined | Some s \<Rightarrow> JStr s)"

definition not_blank :: "jsstring option \<Rightarrow> bool" where
  "not_blank c = (case c of None \<Rightarrow> False | Some s \<Rightarrow> list_ex (\<lambda>x. \<not> is_js_whitespace x) s)"

text \<open>
  Valid input (specification, section 3): \<^verbatim>\<open>name\<close>, \<^verbatim>\<open>email\<close> and \<^verbatim>\<open>message\<close> are
  non-empty texts, the e-mail has the shape of the pattern, \<^verbatim>\<open>company\<close> is a text or is
  absent.
\<close>

fun is_text :: "jsval \<Rightarrow> bool" where
  "is_text (JStr s) = (s \<noteq> [])"
| "is_text v = False"

fun is_email :: "jsval \<Rightarrow> bool" where
  "is_email (JStr s) = regex_test emailRegex s"
| "is_email v = False"

fun optional_text :: "jsval \<Rightarrow> bool" where
  "optional_text JUndefined = True"
| "optional_text JNull = True"
| "optional_text (JStr s) = True"
| "optional_text v = False"

definition valid_input :: "jsval \<Rightarrow> bool" where
  "valid_input b \<longleftrightarrow>
     is_text (member_of b (asc ''name'')) \<and> is_email (member_of b (asc ''email''))
     \<and> optional_text (member_of b (asc ''company'')) \<and> is_text (member_of b (asc ''message''))"

text \<open>
  A POST request that carries the parsed body \<open>b\<close>: for the Netlify functions
  \<^verbatim>\<open>JSON.parse(event.body)\<close> yields it, the plain Vercel function finds it in
  \<^verbatim>\<open>req.body\<close>, the CORS-aware one finds it there or parses it from a string.
\<close>

definition netlify_post :: "runtime \<Rightarrow> event \<Rightarrow> jsval \<Rightarrow> bool" where
  "netlify_post rt ev b \<longleftrightarrow>
     httpMethod ev = asc ''POST'' \<and> json_parse rt (to_string rt (body ev)) = Some b"

definition vercel_post :: "req \<Rightarrow> jsval \<Rightarrow> bool" where
  "vercel_post rq b \<longleftrightarrow> req_method rq = asc ''POST'' \<and> req_body rq = b"

definition cors_post :: "runtime \<Rightarrow> req \<Rightarrow> jsval \<Rightarrow> bool" where
  "cors_post rt rq b \<longleftrightarrow>
     req_method rq = asc ''POST''
     \<and> (case req_body rq of JStr s \<Rightarrow> json_parse rt s = Some b | v \<Rightarrow> v = b)"

text \<open>
  Valid configuration: both variables are set and not empty; the CORS-aware variant also
  wants a chat id that \<^verbatim>\<open>Number\<close> accepts.
\<close>

definition configured :: "env \<Rightarrow> bool" where
  "configured env \<longleftrightarrow>
     truthy (env_value (TELEGRAM_BOT_TOKEN env)) \<and> truthy (env_value (TELEGRAM_CHAT_ID env))"

definition configured_cors :: "runtime \<Rightarrow> env \<Rightarrow> bool" where
  "configured_cors rt env \<longleftrightarrow>
     configured env \<and> to_number rt (env_value (TELEGRAM_CHAT_ID env)) \<noteq> JNaN"

text \<open>The downstream API gives the same answer to whatever is sent.\<close>

definition always_replies :: "runtime \<Rightarrow> jsstring + jsval \<Rightarrow> bool" where
  "always_replies rt x \<longleftrightarrow> (\<forall>url requestBody. fetch_json rt url requestBody = x)"

text \<open>A member of a response's JSON body.\<close>

definition body_member :: "response \<Rightarrow> string \<Rightarrow> jsval option" where
  "body_member r k = (case json r of None \<Rightarrow> None | Some ms \<Rightarrow> map_of ms (asc k))"

text \<open>The 500 response with \<^verbatim>\<open>success: false\<close> and the generic message.\<close>

definition generic_failure :: "response \<Rightarrow> bool" where
  "generic_failure r \<longleftrightarrow>
     statusCode r = 500 \<and> body_member r ''success'' = Some (JBool False)
     \<and> body_member r ''error'' = Some (JStr (asc ''Failed to send Telegram notification''))"

text \<open>The topic id that the topic-aware variant resolves from the environment, if any.\<close>

definition resolved_topic :: "runtime \<Rightarrow> env \<Rightarrow> jsnum option" where
  "resolved_topic rt env =
     (case TELEGRAM_TOPIC_ID env of
        None \<Rightarrow> None
      | Some t \<Rightarrow> if t = [] \<or> string_to_number rt t = JNaN then None
                  else Some (string_to_number rt t))"

text \<open>
  The 200 response for the downstream reply \<^verbatim>\<open>{ok: true, result: {message_id: 42}}\<close>.
\<close>

definition sent_with_id_42 :: "response \<Rightarrow> bool" where
  "sent_with_id_42 r \<longleftrightarrow>
     statusCode r = 200
     \<and> json r = Some [(asc ''success'', JBool True),
                      (asc ''message'', JStr (asc ''Telegram notification sent successfully'')),
                      (asc ''messageId'', JNum (JFin 42))]"

text \<open>
  The downstream call fails: the network call throws, or the API answers with an object
  whose \<^verbatim>\<open>ok\<close> is \<^verbatim>\<open>false\<close>.
\<close>

definition downstream_fails :: "runtime \<Rightarrow> bool" where
  "downstream_fails rt \<longleftrightarrow>
     (\<exists>m. always_replies rt (Inl m))
     \<or> (\<exists>reply. member_of reply (asc ''ok'') = JBool False \<and> always_replies rt (Inr reply))"

text \<open>
  The downstream API answers with an object that has \<^verbatim>\<open>ok: true\<close> and no result
  object: the member is absent or \<^verbatim>\<open>null\<close>.
\<close>

definition ok_without_result :: "runtime \<Rightarrow> bool" where
  "ok_without_result rt \<longleftrightarrow>
     (\<exists>reply. member_of reply (asc ''ok'') = JBool True
        \<and> (member_of reply (asc ''result'') = JUndefined \<or> member_of reply (asc ''result'') = JNull)
        \<and> always_replies rt (Inr reply))"

text \<open>
  The 405 response: \<^verbatim>\<open>success: false\<close> and an error message that begins with
  \<^verbatim>\<open>Method not allowed\<close>.
\<close>

definition method_rejected :: "response \<Rightarrow> bool" where
  "method_rejected r \<longleftrightarrow>
     statusCode r = 405 \<and> body_member r ''success'' = Some (JBool False)
     \<and> (case body_member r ''error'' of
          Some (JStr m) \<Rightarrow> prefix (asc ''Method not allowed'') m
        | _ \<Rightarrow> False)"

text \<open>
  A parsed body lacks a required field: one of \<^verbatim>\<open>name\<close>, \<^verbatim>\<open>email\<close>, \<^verbatim>\<open>message\<close> is
  absent or falsy.
\<close>

definition lacks_required :: "jsval \<Rightarrow> bool" where
  "lacks_required parsed \<longleftrightarrow>
     \<not> truthy (member_of parsed (asc ''name'')) \<or> \<not> truthy (member_of parsed (asc ''email''))
     \<or> \<not> truthy (member_of parsed (asc ''message''))"

text \<open>The 400 response for a body that is not JSON.\<close>

definition invalid_json :: "response \<Rightarrow> bool" where
  "invalid_json r \<longleftrightarrow>
     statusCode r = 400 \<and> body_member r ''success'' = Some (JBool False)
     \<and> body_member r ''error'' = Some (JStr (asc ''Invalid JSON in request body''))"


section \<open>A runtime for concrete runs\<close>

text \<open>
  The instances below run the handlers on one submission. This runtime agrees with the real
  \<^verbatim>\<open>JSON.parse\<close> and \<^verbatim>\<open>Number\<close> on the texts these runs use (the submission, \<^verbatim>\<open>null\<close>,
  the unbalanced \<^verbatim>\<open>{\<close>, the numbers \<^verbatim>\<open>7\<close> and \<^verbatim>\<open>-1001\<close>, the word \<^verbatim>\<open>general\<close>) and is
  arbitrary elsewhere; the downstream reply is a parameter.
\<close>

definition sample_text :: jsstring where
  \<open>sample_text = asc ''{"name":"Ann <A&B>","email":"ann@example.org","company":" ","message":"Hi"}''\<close>

definition sample_body :: jsval where
  "sample_body = JObj
     [(asc ''name'', JStr (asc ''Ann <A&B>'')), (asc ''email'', JStr (asc ''ann@example.org'')),
      (asc ''company'', JStr (asc '' '')), (asc ''message'', JStr (asc ''Hi''))]"

definition sample_runtime :: "jsstring + jsval \<Rightarrow> runtime" where
  "sample_runtime reply =
     \<lparr>json_parse = (\<lambda>s. if s = sample_text then Some sample_body
                         else if s = asc ''null'' then Some JNull else None),
      number_to_string = (\<lambda>n. asc ''0''),
      string_to_number = (\<lambda>s. if s = asc ''7'' then JFin 7
                               else if s = asc ''-1001'' then JFin (- 1001) else JNaN),
      fault_message = (\<lambda>f. asc ''TypeError''),
      locale_date_time = asc ''02.11.2026, 12:00'',
      fetch_json = (\<lambda>url requestBody. reply)\<rparr>"

definition sample_env :: env where
  "sample_env = \<lparr>TELEGRAM_BOT_TOKEN = Some (asc ''123:abc''), TELEGRAM_CHAT_ID = Some (asc ''-1001''),
                 TELEGRAM_TOPIC_ID = None, NODE_ENV = None\<rparr>"

definition sample_event :: event where
  "sample_event = \<lparr>httpMethod = asc ''POST'', body = JStr sample_text\<rparr>"

definition sample_req :: req where
  "sample_req = \<lparr>req_method = asc ''POST'', req_body = sample_body\<rparr>"

definition ok_reply :: jsval where
  "ok_reply = JObj [(asc ''ok'', JBool True),
                    (asc ''result'', JObj [(asc ''message_id'', JNum (JFin 42))])]"

section \<open>Escaping\<close>

lemma replace_all_append: "replace_all c r (xs @ ys) = replace_all c r xs @ replace_all c r ys"
  by (simp add: replace_all_def)

lemma replace_chain_entity:
  "replace_all 0x27 (asc ''&#039;'')
     (replace_all 0x22 (asc ''&quot;'')
       (replace_all 0x3E (asc ''&gt;'')
         (replace_all 0x3C (asc ''&lt;'')
           (replace_all 0x26 (asc ''&amp;'') [c])))) = entity c"
  by (simp add: replace_all_def entity_def asc_def)

lemma replace_chain_escaped:
  "replace_all 0x27 (asc ''&#039;'')
     (replace_all 0x22 (asc ''&quot;'')
       (replace_all 0x3E (asc ''&gt;'')
         (replace_all 0x3C (asc ''&lt;'')
           (replace_all 0x26 (asc ''&amp;'') s)))) = escaped s"
proof (induction s)
  case Nil
  show ?case by (simp add: replace_all_def escaped_def)
next
  case (Cons c s)
  have "c # s = [c] @ s" by simp
  then show ?case
    using Cons.IH replace_chain_entity [of c]
    by (simp only: replace_all_append) (simp add: escaped_def)
qed

lemma escapeHtml_string: "escapeHtml rt (JStr s) = escaped s"
  by (cases s) (simp_all add: escapeHtml_def replace_chain_escaped escaped_def)

lemma entity_no_markup: "set (entity c) \<inter> {0x3C, 0x3E, 0x22, 0x27} = {}"
  by (simp add: entity_def asc_def)

lemma escaped_no_markup: "set (escaped s) \<inter> {0x3C, 0x3E, 0x22, 0x27} = {}"
  using entity_no_markup by (induction s) (auto simp: escaped_def)

lemma dropWhile_keeps: "x \<in> set s \<Longrightarrow> \<not> P x \<Longrightarrow> x \<in> set (dropWhile P s)"
  by (induction s) auto

lemma trim_empty_iff: "trim s \<noteq> [] \<longleftrightarrow> list_ex (\<lambda>x. \<not> is_js_whitespace x) s"
proof
  assume "trim s \<noteq> []"
  then obtain x where "x \<in> set (dropWhile is_js_whitespace s)" "\<not> is_js_whitespace x"
    by (auto simp: trim_def)
  then show "list_ex (\<lambda>x. \<not> is_js_whitespace x) s"
    by (auto simp: list_ex_iff dest: set_dropWhileD)
next
  assume "list_ex (\<lambda>x. \<not> is_js_whitespace x) s"
  then obtain x where "x \<in> set s" "\<not> is_js_whitespace x"
    by (auto simp: list_ex_iff)
  then have "x \<in> set (rev (dropWhile is_js_whitespace s))"
    by (simp add: dropWhile_keeps)
  with \<open>\<not> is_js_whitespace x\<close> show "trim s \<noteq> []"
    by (auto simp: trim_def)
qed

lemma company_given_text: "company_given rt (company_text c) = Inr (not_blank c)"
  by (cases c) (auto simp: company_given_def company_text_def not_blank_def trim_empty_iff)

lemma not_blank_nonempty: "not_blank (Some s) \<Longrightarrow> s \<noteq> []"
  by (auto simp: not_blank_def)

lemma escapeHtml_company: "escapeHtml rt (company_text (Some s)) = escaped s"
  by (simp add: company_text_def escapeHtml_string)

lemma format_strings:
  "formatTelegramMessage rt (JStr n) (JStr e) (company_text c) (JStr m) =
     Inr (title_line @ name_label @ escaped n @ [0x0A] @ email_label @ escaped e @ [0x0A]
          @ (if not_blank c then company_label @ escaped (the c) @ [0x0A] else [])
          @ message_label @ escaped m @ [0x0A, 0x0A] @ sent_label @ locale_date_time rt)"
proof (cases c)
  case None
  then show ?thesis
    by (simp add: formatTelegramMessage_def company_given_text escapeHtml_string Let_def
        not_blank_def)
next
  case (Some s)
  then show ?thesis
    by (simp add: formatTelegramMessage_def company_given_text escapeHtml_string Let_def
        escapeHtml_company)
qed

lemma entity_has_amp: "c \<in> special_chars \<Longrightarrow> 0x26 \<in> set (entity c)"
  by (auto simp: special_chars_def entity_def asc_def)

lemma escaped_has_amp: "\<exists>c\<in>set s. c \<in> special_chars \<Longrightarrow> 0x26 \<in> set (escaped s)"
  by (induction s) (auto simp: escaped_def dest: entity_has_amp)

lemma length_entity: "length (entity c) \<ge> 1"
  by (simp add: entity_def asc_def)

lemma length_escaped_ge: "length s \<le> length (escaped s)"
proof (induction s)
  case Nil show ?case by (simp add: escaped_def)
next
  case (Cons c s)
  then show ?case using length_entity [of c] by (simp add: escaped_def)
qed

lemma length_escaped_amp: "0x26 \<in> set s \<Longrightarrow> length s < length (escaped s)"
proof (induction s)
  case Nil then show ?case by simp
next
  case (Cons c s)
  show ?case
  proof (cases "c = 0x26")
    case True
    then have "length (entity c) = 5" by (simp add: entity_def asc_def)
    then show ?thesis using length_escaped_ge [of s] by (simp add: escaped_def)
  next
    case False
    with Cons.prems have "0x26 \<in> set s" by simp
    then have "length s < length (escaped s)" by (rule Cons.IH)
    then show ?thesis using length_entity [of c] by (simp add: escaped_def)
  qed
qed

section \<open>The pipeline on valid input\<close>

lemma is_textE:
  assumes "is_text v"
  obtains s where "v = JStr s" "s \<noteq> []"
  using assms by (cases v) auto

lemma is_emailE:
  assumes "is_email v"
  obtains s where "v = JStr s" "regex_test emailRegex s"
  using assms by (cases v) auto

lemma emailRegex_nonempty: "regex_test emailRegex s \<Longrightarrow> s \<noteq> []"
  by (auto simp: regex_test_def emailRegex_def one_or_more_def)

lemma valid_inputE:
  assumes "valid_input b"
  obtains n e m where
    "member_of b (asc ''name'') = JStr n" "n \<noteq> []"
    "member_of b (asc ''email'') = JStr e" "e \<noteq> []" "regex_test emailRegex e"
    "member_of b (asc ''message'') = JStr m" "m \<noteq> []"
    "optional_text (member_of b (asc ''company''))"
    "b \<noteq> JUndefined" "b \<noteq> JNull"
proof -
  from assms have n: "is_text (member_of b (asc ''name''))"
    and e: "is_email (member_of b (asc ''email''))"
    and c: "optional_text (member_of b (asc ''company''))"
    and m: "is_text (member_of b (asc ''message''))"
    by (simp_all add: valid_input_def)
  from n have "b \<noteq> JUndefined" "b \<noteq> JNull" by auto
  with n e c m that show thesis
    by (elim is_textE is_emailE) (blast dest: emailRegex_nonempty)
qed

lemma company_given_optional: "optional_text c \<Longrightarrow> \<exists>g. company_given rt c = Inr g"
  by (cases c) (auto simp: company_given_def)

lemma format_valid:
  assumes "optional_text c"
  obtains tmsg where "formatTelegramMessage rt n e c m = Inr tmsg"
proof -
  from assms obtain g where "company_given rt c = Inr g"
    using company_given_optional by blast
  then show thesis using that by (simp add: formatTelegramMessage_def Let_def)
qed

lemma configuredE:
  assumes "configured env"
  obtains tok chat where
    "TELEGRAM_BOT_TOKEN env = Some tok" "tok \<noteq> []"
    "TELEGRAM_CHAT_ID env = Some chat" "chat \<noteq> []"
  using assms
  by (cases "TELEGRAM_BOT_TOKEN env"; cases "TELEGRAM_CHAT_ID env")
     (auto simp: configured_def env_value_def)

text \<open>What the topic-aware variant resolves and prints, in terms of the environment.\<close>

lemma try_netlify_topic_valid:
  assumes post: "netlify_post rt ev b" and valid: "valid_input b" and conf: "configured env"
  obtains tmsg tok chat where
    "TELEGRAM_BOT_TOKEN env = Some tok" "TELEGRAM_CHAT_ID env = Some chat"
    "formatTelegramMessage rt (member_of b (asc ''name'')) (member_of b (asc ''email''))
       (member_of b (asc ''company'')) (member_of b (asc ''message'')) = Inr tmsg"
    "try_netlify_topic rt env ev =
       (let warned = (if truthy (env_value (TELEGRAM_TOPIC_ID env))
                         \<and> to_number rt (env_value (TELEGRAM_TOPIC_ID env)) = JNaN
                      then [ConsoleWarn (asc ''Invalid TOPIC_ID format, will send to general chat'')]
                      else [])
        in case sendTelegramMessage_topic rt tok (JStr chat) tmsg (resolved_topic rt env) of
             (request, Inl e) \<Rightarrow> (Inl e, [request], warned)
           | (request, Inr reply) \<Rightarrow> (check_reply rt reply, [request], warned))"
proof -
  from valid obtain n e m where v:
    "member_of b (asc ''name'') = JStr n" "n \<noteq> []"
    "member_of b (asc ''email'') = JStr e" "e \<noteq> []" "regex_test emailRegex e"
    "member_of b (asc ''message'') = JStr m" "m \<noteq> []"
    "optional_text (member_of b (asc ''company''))"
    "b \<noteq> JUndefined" "b \<noteq> JNull"
    by (rule valid_inputE)
  from conf obtain tok chat where c:
    "TELEGRAM_BOT_TOKEN env = Some tok" "tok \<noteq> []"
    "TELEGRAM_CHAT_ID env = Some chat" "chat \<noteq> []"
    by (rule configuredE)
  from v(8) obtain tmsg where f:
    "formatTelegramMessage rt (JStr n) (JStr e) (member_of b (asc ''company'')) (JStr m) = Inr tmsg"
    by (rule format_valid)
  have topic: "resolved_topic rt env =
      (if truthy (env_value (TELEGRAM_TOPIC_ID env))
          \<and> to_number rt (env_value (TELEGRAM_TOPIC_ID env)) \<noteq> JNaN
       then Some (to_number rt (env_value (TELEGRAM_TOPIC_ID env))) else None)"
    by (cases "TELEGRAM_TOPIC_ID env") (auto simp: resolved_topic_def env_value_def)
  from post have p: "json_parse rt (to_string rt (body ev)) = Some b"
    by (simp add: netlify_post_def)
  have "try_netlify_topic rt env ev =
       (let warned = (if truthy (env_value (TELEGRAM_TOPIC_ID env))
                         \<and> to_number rt (env_value (TELEGRAM_TOPIC_ID env)) = JNaN
                      then [ConsoleWarn (asc ''Invalid TOPIC_ID format, will send to general chat'')]
                      else [])
        in case sendTelegramMessage_topic rt tok (JStr chat) tmsg (resolved_topic rt env) of
             (request, Inl e) \<Rightarrow> (Inl e, [request], warned)
           | (request, Inr reply) \<Rightarrow> (check_reply rt reply, [request], warned))"
    unfolding try_netlify_topic_def topic
    by (simp add: p v c f env_value_def Let_def)
  with that c f v show thesis by simp
qed

lemma valid_input_truthy: "valid_input b \<Longrightarrow> truthy b"
  by (cases b) (auto simp: valid_input_def)

lemma try_netlify_valid:
  assumes post: "netlify_post rt ev b" and valid: "valid_input b" and conf: "configured env"
  obtains tmsg tok chat where
    "TELEGRAM_BOT_TOKEN env = Some tok" "TELEGRAM_CHAT_ID env = Some chat"
    "try_netlify rt env ev =
       (case sendTelegramMessage rt tok (JStr chat) tmsg of
          (request, Inl e) \<Rightarrow> (Inl e, [request], [])
        | (request, Inr reply) \<Rightarrow> (check_reply rt reply, [request], []))"
proof -
  from valid obtain n e m where v:
    "member_of b (asc ''name'') = JStr n" "n \<noteq> []"
    "member_of b (asc ''email'') = JStr e" "e \<noteq> []" "regex_test emailRegex e"
    "member_of b (asc ''message'') = JStr m" "m \<noteq> []"
    "optional_text (member_of b (asc ''company''))"
    "b \<noteq> JUndefined" "b \<noteq> JNull"
    by (rule valid_inputE)
  from conf obtain tok chat where c:
    "TELEGRAM_BOT_TOKEN env = Some tok" "tok \<noteq> []"
    "TELEGRAM_CHAT_ID env = Some chat" "chat \<noteq> []"
    by (rule configuredE)
  from v(8) obtain tmsg where f:
    "formatTelegramMessage rt (JStr n) (JStr e) (member_of b (asc ''company'')) (JStr m) = Inr tmsg"
    by (rule format_valid)
  from post have p: "json_parse rt (to_string rt (body ev)) = Some b"
    by (simp add: netlify_post_def)
  have "try_netlify rt env ev =
       (case sendTelegramMessage rt tok (JStr chat) tmsg of
          (request, Inl e) \<Rightarrow> (Inl e, [request], [])
        | (request, Inr reply) \<Rightarrow> (check_reply rt reply, [request], []))"
    unfolding try_netlify_def
    by (simp add: p v c f env_value_def Let_def)
  with that c show thesis by simp
qed

lemma try_vercel_valid:
  assumes post: "vercel_post rq b" and valid: "valid_input b" and conf: "configured env"
  obtains tmsg tok chat where
    "TELEGRAM_BOT_TOKEN env = Some tok" "TELEGRAM_CHAT_ID env = Some chat"
    "try_vercel rt env rq =
       (case sendTelegramMessage rt tok (JStr chat) tmsg of
          (request, Inl e) \<Rightarrow> (Inl e, [request], [])
        | (request, Inr reply) \<Rightarrow> (check_reply rt reply, [request], []))"
proof -
  from valid obtain n e m where v:
    "member_of b (asc ''name'') = JStr n" "n \<noteq> []"
    "member_of b (asc ''email'') = JStr e" "e \<noteq> []" "regex_test emailRegex e"
    "member_of b (asc ''message'') = JStr m" "m \<noteq> []"
    "optional_text (member_of b (asc ''company''))"
    "b \<noteq> JUndefined" "b \<noteq> JNull"
    by (rule valid_inputE)
  from conf obtain tok chat where c:
    "TELEGRAM_BOT_TOKEN env = Some tok" "tok \<noteq> []"
    "TELEGRAM_CHAT_ID env = Some chat" "chat \<noteq> []"
    by (rule configuredE)
  from v(8) obtain tmsg where f:
    "formatTelegramMessage rt (JStr n) (JStr e) (member_of b (asc ''company'')) (JStr m) = Inr tmsg"
    by (rule format_valid)
  from post have p: "req_body rq = b"
    by (simp add: vercel_post_def)
  have "try_vercel rt env rq =
       (case sendTelegramMessage rt tok (JStr chat) tmsg of
          (request, Inl e) \<Rightarrow> (Inl e, [request], [])
        | (request, Inr reply) \<Rightarrow> (check_reply rt reply, [request], []))"
    unfolding try_vercel_def
    by (simp add: p v c f env_value_def Let_def)
  with that c show thesis by simp
qed

lemma cors_post_parsed:
  assumes "cors_post rt rq b"
  shows "(case req_body rq of JStr s \<Rightarrow> json_parse rt s | v \<Rightarrow> Some v) = Some b"
  using assms by (auto simp: cors_post_def split: jsval.splits)

lemma log_form_data_valid:
  assumes "optional_text c"
  shows "log_form_data rt (JStr n) (JStr e) c = Inr ()"
  using assms by (cases c) (simp_all add: log_form_data_def call_substring_def)

lemma try_cors_valid:
  assumes post: "cors_post rt rq b" and valid: "valid_input b" and conf: "configured_cors rt env"
  obtains tmsg tok chat where
    "TELEGRAM_BOT_TOKEN env = Some tok" "TELEGRAM_CHAT_ID env = Some chat"
    "try_cors rt env rq =
       (case sendTelegramMessage_cors rt tok (JNum (string_to_number rt chat)) tmsg of
          (request, Inl e) \<Rightarrow> (Inl e, [request])
        | (request, Inr reply) \<Rightarrow> (check_reply_cors rt reply, [request]))"
proof -
  from valid obtain n e m where v:
    "member_of b (asc ''name'') = JStr n" "n \<noteq> []"
    "member_of b (asc ''email'') = JStr e" "e \<noteq> []" "regex_test emailRegex e"
    "member_of b (asc ''message'') = JStr m" "m \<noteq> []"
    "optional_text (member_of b (asc ''company''))"
    "b \<noteq> JUndefined" "b \<noteq> JNull"
    by (rule valid_inputE)
  from conf have "configured env" by (simp add: configured_cors_def)
  then obtain tok chat where c:
    "TELEGRAM_BOT_TOKEN env = Some tok" "tok \<noteq> []"
    "TELEGRAM_CHAT_ID env = Some chat" "chat \<noteq> []"
    by (rule configuredE)
  from conf c have num: "string_to_number rt chat \<noteq> JNaN"
    by (simp add: configured_cors_def env_value_def)
  from v(8) obtain tmsg where f:
    "formatTelegramMessage rt (JStr n) (JStr e) (member_of b (asc ''company'')) (JStr m) = Inr tmsg"
    by (rule format_valid)
  have src: "js_or b (JObj []) = b"
    using valid by (simp add: js_or_def valid_input_truthy)
  have "try_cors rt env rq =
       (case sendTelegramMessage_cors rt tok (JNum (string_to_number rt chat)) tmsg of
          (request, Inl e) \<Rightarrow> (Inl e, [request])
        | (request, Inr reply) \<Rightarrow> (check_reply_cors rt reply, [request]))"
    unfolding try_cors_def cors_post_parsed [OF post]
    by (simp add: src v c f num env_value_def Let_def log_form_data_valid)
  with that c show thesis by simp
qed

text \<open>The forwarders under a downstream API that always gives the same answer.\<close>

lemma send_topic_replies:
  assumes "always_replies rt x"
  shows "snd (sendTelegramMessage_topic rt tok chat tmsg topic) =
           (case x of Inl m \<Rightarrow> Inl (Thrown m) | Inr reply \<Rightarrow> Inr reply)"
  using assms by (simp add: sendTelegramMessage_topic_def always_replies_def Let_def)

lemma send_replies:
  assumes "always_replies rt x"
  shows "snd (sendTelegramMessage rt tok chat tmsg) =
           (case x of Inl m \<Rightarrow> Inl (Thrown m) | Inr reply \<Rightarrow> Inr reply)"
  using assms by (simp add: sendTelegramMessage_def always_replies_def Let_def)

lemma send_cors_replies:
  assumes "always_replies rt x"
  shows "snd (sendTelegramMessage_cors rt tok chat tmsg) =
           (case x of Inl m \<Rightarrow> Inl (Thrown (asc ''Failed to call Telegram API: '' @ m))
                    | Inr reply \<Rightarrow> Inr reply)"
  using assms by (simp add: sendTelegramMessage_cors_def always_replies_def Let_def)

text \<open>The reply checks.\<close>

lemma body_member_json_response:
  "body_member (json_response code obj) k = map_of (json_members obj) (asc k)"
  by (simp add: body_member_def json_response_def)

lemma catch_gated_response:
  "response (catch_gated env (Inr r, out, con)) = r"
  "sent (catch_gated env (x, out, con)) = out"
  by (cases x; simp add: catch_gated_def)+

lemma catch_gated_failure:
  "generic_failure (response (catch_gated env (Inl e, out, con)))"
  "body_member (response (catch_gated env (Inl e, out, con))) ''messageId'' = None"
  by (simp_all add: catch_gated_def generic_failure_def body_member_def
      json_members_def asc_def json_response_def)

lemma check_reply_ok:
  "check_reply rt ok_reply =
     Inr (json_response 200
            [(''success'', JBool True),
             (''message'', JStr (asc ''Telegram notification sent successfully'')),
             (''messageId'', JNum (JFin 42))])"
  by (simp add: check_reply_def ok_reply_def get_member_def asc_def)

lemma check_reply_cors_ok:
  "check_reply_cors rt ok_reply =
     Inr (json_response 200
            [(''success'', JBool True),
             (''message'', JStr (asc ''Telegram notification sent successfully'')),
             (''messageId'', JNum (JFin 42))])"
  by (simp add: check_reply_cors_def ok_reply_def get_member_def asc_def)

lemma check_reply_not_ok:
  assumes "member_of reply (asc ''ok'') = JBool False"
  shows "\<exists>e. check_reply rt reply = Inl e" "\<exists>e. check_reply_cors rt reply = Inl e"
  using assms by (auto simp: check_reply_def check_reply_cors_def get_member_def)

lemma check_reply_no_result:
  assumes "member_of reply (asc ''result'') = JUndefined \<or> member_of reply (asc ''result'') = JNull"
  shows "\<exists>e. check_reply rt reply = Inl e" "\<exists>e. check_reply_cors rt reply = Inl e"
  using assms
  by (auto simp: check_reply_def check_reply_cors_def get_member_def split: sum.splits)

section \<open>The handlers on valid input\<close>

lemma handler_netlify_topic_valid:
  assumes "netlify_post rt ev b" "valid_input b" "configured env" "always_replies rt x"
  obtains out con where
    "handler_netlify_topic rt env ev =
       catch_gated env
         ((case x of Inl m \<Rightarrow> Inl (Thrown m) | Inr reply \<Rightarrow> check_reply rt reply), out, con)"
proof -
  from assms(1-3) obtain tmsg tok chat where t:
    "try_netlify_topic rt env ev =
       (let warned = (if truthy (env_value (TELEGRAM_TOPIC_ID env))
                         \<and> to_number rt (env_value (TELEGRAM_TOPIC_ID env)) = JNaN
                      then [ConsoleWarn (asc ''Invalid TOPIC_ID format, will send to general chat'')]
                      else [])
        in case sendTelegramMessage_topic rt tok (JStr chat) tmsg (resolved_topic rt env) of
             (request, Inl e) \<Rightarrow> (Inl e, [request], warned)
           | (request, Inr reply) \<Rightarrow> (check_reply rt reply, [request], warned))"
    by (rule try_netlify_topic_valid)
  obtain request result where
    s: "sendTelegramMessage_topic rt tok (JStr chat) tmsg (resolved_topic rt env) = (request, result)"
    by (cases "sendTelegramMessage_topic rt tok (JStr chat) tmsg (resolved_topic rt env)")
  with send_topic_replies [OF assms(4), of tok "JStr chat" tmsg "resolved_topic rt env"]
  have r: "result = (case x of Inl m \<Rightarrow> Inl (Thrown m) | Inr reply \<Rightarrow> Inr reply)" by simp
  from assms(1) have "httpMethod ev = asc ''POST''" by (simp add: netlify_post_def)
  then show thesis
    using that t s r by (cases x) (simp_all add: handler_netlify_topic_def Let_def)
qed

lemma handler_netlify_valid:
  assumes "netlify_post rt ev b" "valid_input b" "configured env" "always_replies rt x"
  obtains out con where
    "handler_netlify rt env ev =
       catch_gated env
         ((case x of Inl m \<Rightarrow> Inl (Thrown m) | Inr reply \<Rightarrow> check_reply rt reply), out, con)"
proof -
  from assms(1-3) obtain tmsg tok chat where t:
    "try_netlify rt env ev =
       (case sendTelegramMessage rt tok (JStr chat) tmsg of
          (request, Inl e) \<Rightarrow> (Inl e, [request], [])
        | (request, Inr reply) \<Rightarrow> (check_reply rt reply, [request], []))"
    by (rule try_netlify_valid)
  obtain request result where
    s: "sendTelegramMessage rt tok (JStr chat) tmsg = (request, result)"
    by (cases "sendTelegramMessage rt tok (JStr chat) tmsg")
  with send_replies [OF assms(4), of tok "JStr chat" tmsg]
  have r: "result = (case x of Inl m \<Rightarrow> Inl (Thrown m) | Inr reply \<Rightarrow> Inr reply)" by simp
  from assms(1) have "httpMethod ev = asc ''POST''" by (simp add: netlify_post_def)
  then show thesis
    using that t s r by (cases x) (simp_all add: handler_netlify_def)
qed

lemma handler_vercel_valid:
  assumes "vercel_post rq b" "valid_input b" "configured env" "always_replies rt x"
  obtains out con where
    "handler_vercel rt env rq =
       catch_gated env
         ((case x of Inl m \<Rightarrow> Inl (Thrown m) | Inr reply \<Rightarrow> check_reply rt reply), out, con)"
proof -
  from assms(1-3) obtain tmsg tok chat where t:
    "try_vercel rt env rq =
       (case sendTelegramMessage rt tok (JStr chat) tmsg of
          (request, Inl e) \<Rightarrow> (Inl e, [request], [])
        | (request, Inr reply) \<Rightarrow> (check_reply rt reply, [request], []))"
    by (rule try_vercel_valid)
  obtain request result where
    s: "sendTelegramMessage rt tok (JStr chat) tmsg = (request, result)"
    by (cases "sendTelegramMessage rt tok (JStr chat) tmsg")
  with send_replies [OF assms(4), of tok "JStr chat" tmsg]
  have r: "result = (case x of Inl m \<Rightarrow> Inl (Thrown m) | Inr reply \<Rightarrow> Inr reply)" by simp
  from assms(1) have "req_method rq = asc ''POST''" by (simp add: vercel_post_def)
  then show thesis
    using that t s r by (cases x) (simp_all add: handler_vercel_def)
qed

lemma try_cors_replies:
  assumes "cors_post rt rq b" "valid_input b" "configured_cors rt env" "always_replies rt x"
  obtains out where
    "try_cors rt env rq =
       ((case x of Inl m \<Rightarrow> Inl (Thrown (asc ''Failed to call Telegram API: '' @ m))
                 | Inr reply \<Rightarrow> check_reply_cors rt reply), out)"
proof -
  from assms(1-3) obtain tmsg tok chat where t:
    "try_cors rt env rq =
       (case sendTelegramMessage_cors rt tok (JNum (string_to_number rt chat)) tmsg of
          (request, Inl e) \<Rightarrow> (Inl e, [request])
        | (request, Inr reply) \<Rightarrow> (check_reply_cors rt reply, [request]))"
    by (rule try_cors_valid)
  obtain request result where
    s: "sendTelegramMessage_cors rt tok (JNum (string_to_number rt chat)) tmsg = (request, result)"
    by (cases "sendTelegramMessage_cors rt tok (JNum (string_to_number rt chat)) tmsg")
  with send_cors_replies [OF assms(4), of tok "JNum (string_to_number rt chat)" tmsg]
  have r: "result = (case x of Inl m \<Rightarrow> Inl (Thrown (asc ''Failed to call Telegram API: '' @ m))
                             | Inr reply \<Rightarrow> Inr reply)" by simp
  show thesis
    using that t s r by (cases x) simp_all
qed

lemma post_not_options: "asc ''POST'' \<noteq> asc ''OPTIONS''"
  by (simp add: asc_def)

lemma handler_cors_thrown:
  assumes "req_method rq = asc ''POST''" "try_cors rt env rq = (Inl e, out)"
  shows "generic_failure (fst (handler_cors rt env rq))"
    and "body_member (fst (handler_cors rt env rq)) ''messageId'' = None"
    and "body_member (fst (handler_cors rt env rq)) ''details'' =
           Some (js_or (JStr (error_message e)) (JStr (asc ''Unknown error'')))"
  using assms
  by (simp_all add: handler_cors_def post_not_options generic_failure_def body_member_def
      json_response_def json_members_def js_or_def asc_def)

lemma handler_cors_returned:
  assumes "req_method rq = asc ''POST''" "try_cors rt env rq = (Inr r, out)"
  shows "fst (handler_cors rt env rq) = r\<lparr>headers := cors_headers\<rparr>"
    and "snd (handler_cors rt env rq) = out"
  using assms by (simp_all add: handler_cors_def post_not_options)

lemma sent_with_id_42_json_response:
  "sent_with_id_42 ((json_response 200
     [(''success'', JBool True),
      (''message'', JStr (asc ''Telegram notification sent successfully'')),
      (''messageId'', JNum (JFin 42))])\<lparr>headers := h\<rparr>)"
  "sent_with_id_42 (json_response 200
     [(''success'', JBool True),
      (''message'', JStr (asc ''Telegram notification sent successfully'')),
      (''messageId'', JNum (JFin 42))])"
  by (simp_all add: sent_with_id_42_def json_response_def json_members_def)

lemma downstream_failsE:
  assumes "downstream_fails rt"
  obtains x where "always_replies rt x" "\<And>rt'. \<exists>e. (case x of Inl m \<Rightarrow> Inl (Thrown m) | Inr reply \<Rightarrow> check_reply rt' reply) = Inl e"
    "\<And>rt'. \<exists>e. (case x of Inl m \<Rightarrow> Inl (Thrown (asc ''Failed to call Telegram API: '' @ m))
                 | Inr reply \<Rightarrow> check_reply_cors rt' reply) = Inl e"
proof -
  from assms consider m where "always_replies rt (Inl m)"
    | reply where "member_of reply (asc ''ok'') = JBool False" "always_replies rt (Inr reply)"
    by (auto simp: downstream_fails_def)
  then show thesis
  proof cases
    case 1
    then show ?thesis using that [of "Inl m"] by simp
  next
    case 2
    then show ?thesis using that [of "Inr reply"] check_reply_not_ok [of reply] by simp
  qed
qed

lemma ok_without_resultE:
  assumes "ok_without_result rt"
  obtains reply where "always_replies rt (Inr reply)" "\<And>rt'. \<exists>e. check_reply rt' reply = Inl e"
    "\<And>rt'. \<exists>e. check_reply_cors rt' reply = Inl e"
proof -
  from assms obtain reply where
    "member_of reply (asc ''result'') = JUndefined \<or> member_of reply (asc ''result'') = JNull"
    "always_replies rt (Inr reply)"
    by (auto simp: ok_without_result_def)
  then show thesis using that [of reply] check_reply_no_result [of reply] by simp
qed

text \<open>The sample submission satisfies the hypotheses of the claims.\<close>

lemma sample_valid: "valid_input sample_body"
  by code_simp

lemma sample_posts:
  "netlify_post (sample_runtime x) sample_event sample_body"
  "vercel_post sample_req sample_body"
  "cors_post (sample_runtime x) sample_req sample_body"
  by (simp_all add: netlify_post_def vercel_post_def cors_post_def sample_runtime_def
      sample_event_def sample_req_def sample_body_def)

lemma sample_configured:
  "configured sample_env" "configured_cors (sample_runtime x) sample_env"
  by (simp_all add: configured_def configured_cors_def sample_env_def env_value_def
      sample_runtime_def asc_def)

lemma sample_replies: "always_replies (sample_runtime x) x"
  by (simp add: always_replies_def sample_runtime_def)

lemma not_configured_cases:
  assumes "\<not> configured env"
  shows "\<not> truthy (env_value (TELEGRAM_BOT_TOKEN env)) \<or> \<not> truthy (env_value (TELEGRAM_CHAT_ID env))"
  using assms by (simp add: configured_def)
















section \<open>The required-field check\<close>

text \<open>
  Where the required-field check is reached, it answers 400 with the missing-fields
  message: in the CORS-aware variant for every parsed body, in the other variants for every
  body that is neither \<^verbatim>\<open>null\<close> nor \<^verbatim>\<open>undefined\<close>.
\<close>

lemma lacks_required_or:
  "lacks_required (js_or parsed (JObj [])) \<longleftrightarrow> lacks_required parsed"
  by (cases parsed) (auto simp: js_or_def lacks_required_def)

lemma missing_fields_rejected:
  assumes "lacks_required parsed"
  shows "cors_post rt rq parsed \<Longrightarrow> handler_cors rt env rq = (missing_fields\<lparr>headers := cors_headers\<rparr>, [])"
    and "netlify_post rt ev parsed \<Longrightarrow> parsed \<noteq> JNull \<Longrightarrow> parsed \<noteq> JUndefined \<Longrightarrow>
           response (handler_netlify_topic rt env ev) = missing_fields
           \<and> response (handler_netlify rt env ev) = missing_fields"
    and "vercel_post rq' parsed \<Longrightarrow> parsed \<noteq> JNull \<Longrightarrow> parsed \<noteq> JUndefined \<Longrightarrow>
           response (handler_vercel rt env rq') = missing_fields"
proof -
  from assms have l: "lacks_required (js_or parsed (JObj []))" by (simp add: lacks_required_or)
  {
    assume post: "cors_post rt rq parsed"
    then have p: "req_method rq = asc ''POST''" by (simp add: cors_post_def)
    have "try_cors rt env rq = (Inr missing_fields, [])"
      unfolding try_cors_def cors_post_parsed [OF post]
      using l by (auto simp: lacks_required_def Let_def)
    then show "handler_cors rt env rq = (missing_fields\<lparr>headers := cors_headers\<rparr>, [])"
      by (simp add: handler_cors_def p post_not_options)
  }
  {
    assume post: "netlify_post rt ev parsed" and nn: "parsed \<noteq> JNull" "parsed \<noteq> JUndefined"
    then have p: "httpMethod ev = asc ''POST''" "json_parse rt (to_string rt (body ev)) = Some parsed"
      by (simp_all add: netlify_post_def)
    have "try_netlify_topic rt env ev = (Inr missing_fields, [], [])"
      unfolding try_netlify_topic_def
      using assms nn by (auto simp: p lacks_required_def Let_def)
    moreover have "try_netlify rt env ev = (Inr missing_fields, [], [])"
      unfolding try_netlify_def
      using assms nn by (auto simp: p lacks_required_def Let_def)
    ultimately show "response (handler_netlify_topic rt env ev) = missing_fields
           \<and> response (handler_netlify rt env ev) = missing_fields"
      by (simp add: handler_netlify_topic_def handler_netlify_def p catch_gated_response)
  }
  {
    assume post: "vercel_post rq' parsed" and nn: "parsed \<noteq> JNull" "parsed \<noteq> JUndefined"
    then have p: "req_method rq' = asc ''POST''" "req_body rq' = parsed"
      by (simp_all add: vercel_post_def)
    have "try_vercel rt env rq' = (Inr missing_fields, [], [])"
      unfolding try_vercel_def
      using assms nn by (auto simp: p lacks_required_def Let_def)
    then show "response (handler_vercel rt env rq') = missing_fields"
      by (simp add: handler_vercel_def p catch_gated_response)
  }
qed

lemma missing_fields_not_failure: "\<not> generic_failure missing_fields"
  by (simp add: generic_failure_def missing_fields_def json_response_def)

section \<open>The claims\<close>

text \<open>
  C1. For strings \<open>n\<close>, \<open>e\<close>, \<open>m\<close> as name, e-mail and message and a company that is a
  string or absent: escaping a string puts the entity in the place of each of the five
  characters and leaves every other character alone, which is what the five replacements
  give when the ampersand goes first; no less-than, greater-than or quote character is
  left in an escaped text; and the formatted message is the title, the name line, the e-mail
  line, the company line exactly when the company is present and has a character that is
  not whitespace, the message section and the date line, each value escaped.
\<close>

theorem formatTelegramMessage_escapes:
  "escapeHtml rt (JStr s) = escaped s
   \<and> set (escaped s) \<inter> {0x3C, 0x3E, 0x22, 0x27} = {}
   \<and> formatTelegramMessage rt (JStr n) (JStr e) (company_text c) (JStr m) =
       Inr (title_line @ name_label @ escaped n @ [0x0A] @ email_label @ escaped e @ [0x0A]
            @ (if not_blank c then company_label @ escaped (the c) @ [0x0A] else [])
            @ message_label @ escaped m @ [0x0A, 0x0A] @ sent_label @ locale_date_time rt)"
proof (intro conjI)
  show "escapeHtml rt (JStr s) = escaped s"
    by (rule escapeHtml_string)
  show "set (escaped s) \<inter> {0x3C, 0x3E, 0x22, 0x27} = {}"
    by (rule escaped_no_markup)
  show "formatTelegramMessage rt (JStr n) (JStr e) (company_text c) (JStr m) =
       Inr (title_line @ name_label @ escaped n @ [0x0A] @ email_label @ escaped e @ [0x0A]
            @ (if not_blank c then company_label @ escaped (the c) @ [0x0A] else [])
            @ message_label @ escaped m @ [0x0A, 0x0A] @ sent_label @ locale_date_time rt)"
    by (rule format_strings)
qed

theorem formatTelegramMessage_escapes_witness:
  "formatTelegramMessage (sample_runtime (Inr ok_reply)) (JStr (asc ''Ann <A&B>''))
     (JStr (asc ''ann@example.org'')) (JStr (asc ''R&D'')) (JStr (asc ''Hi'')) =
   Inr (title_line @ name_label @ asc ''Ann &lt;A&amp;B&gt;'' @ [0x0A]
        @ email_label @ asc ''ann@example.org'' @ [0x0A]
        @ company_label @ asc ''R&amp;D'' @ [0x0A]
        @ message_label @ asc ''Hi'' @ [0x0A, 0x0A] @ sent_label @ asc ''02.11.2026, 12:00'')"
  using formatTelegramMessage_escapes [of "sample_runtime (Inr ok_reply)" "[]"
      "asc ''Ann <A&B>''" "asc ''ann@example.org''" "Some (asc ''R&D'')" "asc ''Hi''"]
  by (simp add: company_text_def not_blank_def escaped_def entity_def asc_def
      is_js_whitespace_def sample_runtime_def)

text \<open>
  C9. Escaping is not idempotent: for every text with at least one of the five characters,
  escaping the escaped text gives something else than escaping once; the entity
  \<^verbatim>\<open>&amp;\<close>, escaped, is \<^verbatim>\<open>&amp;amp;\<close>.
\<close>

theorem escapeHtml_not_idempotent:
  "((\<exists>c\<in>set s. c \<in> special_chars) \<longrightarrow>
      escapeHtml rt (JStr (escapeHtml rt (JStr s))) \<noteq> escapeHtml rt (JStr s))
   \<and> escapeHtml rt (JStr (asc ''&amp;'')) = asc ''&amp;amp;''"
proof (intro conjI impI)
  assume "\<exists>c\<in>set s. c \<in> special_chars"
  then have "0x26 \<in> set (escaped s)" by (rule escaped_has_amp)
  then have "length (escaped s) < length (escaped (escaped s))" by (rule length_escaped_amp)
  then show "escapeHtml rt (JStr (escapeHtml rt (JStr s))) \<noteq> escapeHtml rt (JStr s)"
    by (auto simp: escapeHtml_string)
next
  show "escapeHtml rt (JStr (asc ''&amp;'')) = asc ''&amp;amp;''"
    by (simp add: escapeHtml_string escaped_def entity_def asc_def)
qed

theorem escapeHtml_not_idempotent_witness:
  "(\<exists>c\<in>set (asc ''a<b''). c \<in> special_chars)
   \<and> escapeHtml (sample_runtime (Inr ok_reply)) (JStr (asc ''a<b'')) = asc ''a&lt;b''
   \<and> escapeHtml (sample_runtime (Inr ok_reply))
         (JStr (escapeHtml (sample_runtime (Inr ok_reply)) (JStr (asc ''a<b'')))) \<noteq> asc ''a&lt;b''"
proof -
  have h: "\<exists>c\<in>set (asc ''a<b''). c \<in> special_chars"
    by (simp add: asc_def special_chars_def)
  have e: "escapeHtml (sample_runtime (Inr ok_reply)) (JStr (asc ''a<b'')) = asc ''a&lt;b''"
    by (simp add: escapeHtml_string escaped_def entity_def asc_def)
  from h e escapeHtml_not_idempotent [of "asc ''a<b''" "sample_runtime (Inr ok_reply)"]
  show ?thesis by simp
qed

text \<open>
  C2. With valid input and valid configuration, in every variant: when the downstream API
  answers \<^verbatim>\<open>{ok: true, result: {message_id: 42}}\<close> the response is 200 with
  \<^verbatim>\<open>success: true\<close>, the success message and \<^verbatim>\<open>messageId: 42\<close>; when it answers an object
  whose \<^verbatim>\<open>ok\<close> is \<^verbatim>\<open>false\<close>, or the network call throws, the response is 500 with
  \<^verbatim>\<open>success: false\<close> and the message \<^verbatim>\<open>Failed to send Telegram notification\<close>.
\<close>

theorem forwarding_outcome:
  assumes valid: "valid_input b"
  shows
    "(netlify_post rt ev b \<and> configured env \<longrightarrow>
        (always_replies rt (Inr ok_reply) \<longrightarrow>
           sent_with_id_42 (response (handler_netlify_topic rt env ev))
           \<and> sent_with_id_42 (response (handler_netlify rt env ev)))
        \<and> (downstream_fails rt \<longrightarrow>
           generic_failure (response (handler_netlify_topic rt env ev))
           \<and> generic_failure (response (handler_netlify rt env ev))))
     \<and> (vercel_post rq b \<and> configured env \<longrightarrow>
        (always_replies rt (Inr ok_reply) \<longrightarrow>
           sent_with_id_42 (response (handler_vercel rt env rq)))
        \<and> (downstream_fails rt \<longrightarrow> generic_failure (response (handler_vercel rt env rq))))
     \<and> (cors_post rt rq' b \<and> configured_cors rt env \<longrightarrow>
        (always_replies rt (Inr ok_reply) \<longrightarrow> sent_with_id_42 (fst (handler_cors rt env rq')))
        \<and> (downstream_fails rt \<longrightarrow> generic_failure (fst (handler_cors rt env rq'))))"
proof (intro conjI impI; (elim conjE)?)
  assume h: "netlify_post rt ev b" "configured env" "always_replies rt (Inr ok_reply)"
  from h(1) valid h(2,3) obtain out con where
    "handler_netlify_topic rt env ev = catch_gated env (check_reply rt ok_reply, out, con)"
    by (rule handler_netlify_topic_valid [where x = "Inr ok_reply", simplified])
  then show "sent_with_id_42 (response (handler_netlify_topic rt env ev))"
    by (simp add: check_reply_ok catch_gated_response sent_with_id_42_json_response)
  from h(1) valid h(2,3) obtain out con where
    "handler_netlify rt env ev = catch_gated env (check_reply rt ok_reply, out, con)"
    by (rule handler_netlify_valid [where x = "Inr ok_reply", simplified])
  then show "sent_with_id_42 (response (handler_netlify rt env ev))"
    by (simp add: check_reply_ok catch_gated_response sent_with_id_42_json_response)
next
  assume h: "netlify_post rt ev b" "configured env" and "downstream_fails rt"
  then obtain x where x: "always_replies rt x"
    "\<exists>e. (case x of Inl m \<Rightarrow> Inl (Thrown m) | Inr reply \<Rightarrow> check_reply rt reply) = Inl e"
    by (elim downstream_failsE) blast
  from h(1) valid h(2) x(1) obtain out con where
    "handler_netlify_topic rt env ev =
       catch_gated env
         ((case x of Inl m \<Rightarrow> Inl (Thrown m) | Inr reply \<Rightarrow> check_reply rt reply), out, con)"
    by (rule handler_netlify_topic_valid)
  with x(2) show "generic_failure (response (handler_netlify_topic rt env ev))"
    by (auto simp: catch_gated_failure)
  from h(1) valid h(2) x(1) obtain out con where
    "handler_netlify rt env ev =
       catch_gated env
         ((case x of Inl m \<Rightarrow> Inl (Thrown m) | Inr reply \<Rightarrow> check_reply rt reply), out, con)"
    by (rule handler_netlify_valid)
  with x(2) show "generic_failure (response (handler_netlify rt env ev))"
    by (auto simp: catch_gated_failure)
next
  assume h: "vercel_post rq b" "configured env" "always_replies rt (Inr ok_reply)"
  from h(1) valid h(2,3) obtain out con where
    "handler_vercel rt env rq = catch_gated env (check_reply rt ok_reply, out, con)"
    by (rule handler_vercel_valid [where x = "Inr ok_reply", simplified])
  then show "sent_with_id_42 (response (handler_vercel rt env rq))"
    by (simp add: check_reply_ok catch_gated_response sent_with_id_42_json_response)
next
  assume h: "vercel_post rq b" "configured env" and "downstream_fails rt"
  then obtain x where x: "always_replies rt x"
    "\<exists>e. (case x of Inl m \<Rightarrow> Inl (Thrown m) | Inr reply \<Rightarrow> check_reply rt reply) = Inl e"
    by (elim downstream_failsE) blast
  from h(1) valid h(2) x(1) obtain out con where
    "handler_vercel rt env rq =
       catch_gated env
         ((case x of Inl m \<Rightarrow> Inl (Thrown m) | Inr reply \<Rightarrow> check_reply rt reply), out, con)"
    by (rule handler_vercel_valid)
  with x(2) show "generic_failure (response (handler_vercel rt env rq))"
    by (auto simp: catch_gated_failure)
next
  assume h: "cors_post rt rq' b" "configured_cors rt env" "always_replies rt (Inr ok_reply)"
  from h(1) valid h(2,3) obtain out where
    "try_cors rt env rq' = (check_reply_cors rt ok_reply, out)"
    by (rule try_cors_replies [where x = "Inr ok_reply", simplified])
  moreover from h(1) have "req_method rq' = asc ''POST''" by (simp add: cors_post_def)
  ultimately show "sent_with_id_42 (fst (handler_cors rt env rq'))"
    by (simp add: check_reply_cors_ok handler_cors_returned sent_with_id_42_json_response)
next
  assume h: "cors_post rt rq' b" "configured_cors rt env" and "downstream_fails rt"
  then obtain x where x: "always_replies rt x"
    "\<exists>e. (case x of Inl m \<Rightarrow> Inl (Thrown (asc ''Failed to call Telegram API: '' @ m))
                 | Inr reply \<Rightarrow> check_reply_cors rt reply) = Inl e"
    by (elim downstream_failsE) blast
  from h(1) valid h(2) x(1) obtain out where
    "try_cors rt env rq' =
       ((case x of Inl m \<Rightarrow> Inl (Thrown (asc ''Failed to call Telegram API: '' @ m))
                 | Inr reply \<Rightarrow> check_reply_cors rt reply), out)"
    by (rule try_cors_replies)
  moreover from h(1) have "req_method rq' = asc ''POST''" by (simp add: cors_post_def)
  ultimately show "generic_failure (fst (handler_cors rt env rq'))"
    using x(2) by (auto simp: handler_cors_thrown)
qed

theorem forwarding_outcome_witness:
  "valid_input sample_body
   \<and> netlify_post (sample_runtime (Inr ok_reply)) sample_event sample_body
   \<and> cors_post (sample_runtime (Inr ok_reply)) sample_req sample_body
   \<and> configured_cors (sample_runtime (Inr ok_reply)) sample_env
   \<and> always_replies (sample_runtime (Inr ok_reply)) (Inr ok_reply)
   \<and> sent_with_id_42
        (response (handler_netlify_topic (sample_runtime (Inr ok_reply)) sample_env sample_event))
   \<and> sent_with_id_42 (fst (handler_cors (sample_runtime (Inr ok_reply)) sample_env sample_req))
   \<and> downstream_fails (sample_runtime (Inl (asc ''fetch failed'')))
   \<and> generic_failure
        (response (handler_netlify_topic (sample_runtime (Inl (asc ''fetch failed'')))
           sample_env sample_event))
   \<and> generic_failure
        (fst (handler_cors (sample_runtime (Inl (asc ''fetch failed''))) sample_env sample_req))"
proof -
  have f: "downstream_fails (sample_runtime (Inl (asc ''fetch failed'')))"
    using sample_replies [of "Inl (asc ''fetch failed'')"] by (auto simp: downstream_fails_def)
  show ?thesis
    using f sample_valid sample_posts sample_configured sample_replies
      forwarding_outcome [OF sample_valid, of "sample_runtime (Inr ok_reply)" sample_event
        sample_env sample_req sample_req]
      forwarding_outcome [OF sample_valid, of "sample_runtime (Inl (asc ''fetch failed''))"
        sample_event sample_env sample_req sample_req]
    by blast
qed

text \<open>
  C10. With valid input and configuration and a downstream reply that has \<^verbatim>\<open>ok: true\<close> and
  no result object (the member is absent or \<^verbatim>\<open>null\<close>), every variant answers 500 with
  \<^verbatim>\<open>success: false\<close> and the generic message, and its body has no \<^verbatim>\<open>messageId\<close>.
\<close>

theorem ok_without_result_fails:
  assumes valid: "valid_input b" and reply: "ok_without_result rt"
  shows
    "(netlify_post rt ev b \<and> configured env \<longrightarrow>
        generic_failure (response (handler_netlify_topic rt env ev))
        \<and> body_member (response (handler_netlify_topic rt env ev)) ''messageId'' = None
        \<and> generic_failure (response (handler_netlify rt env ev))
        \<and> body_member (response (handler_netlify rt env ev)) ''messageId'' = None)
     \<and> (vercel_post rq b \<and> configured env \<longrightarrow>
        generic_failure (response (handler_vercel rt env rq))
        \<and> body_member (response (handler_vercel rt env rq)) ''messageId'' = None)
     \<and> (cors_post rt rq' b \<and> configured_cors rt env \<longrightarrow>
        generic_failure (fst (handler_cors rt env rq'))
        \<and> body_member (fst (handler_cors rt env rq')) ''messageId'' = None)"
proof -
  from reply obtain r where r: "always_replies rt (Inr r)"
    "\<exists>e. check_reply rt r = Inl e" "\<exists>e. check_reply_cors rt r = Inl e"
    by (elim ok_without_resultE) blast
  show ?thesis
  proof (intro conjI impI; (elim conjE)?)
    assume h: "netlify_post rt ev b" "configured env"
    from h(1) valid h(2) r(1) obtain out con where
      t: "handler_netlify_topic rt env ev = catch_gated env (check_reply rt r, out, con)"
      by (rule handler_netlify_topic_valid [where x = "Inr r", simplified])
    from t r(2) show "generic_failure (response (handler_netlify_topic rt env ev))"
      by (auto simp: catch_gated_failure)
    from t r(2)
    show "body_member (response (handler_netlify_topic rt env ev)) ''messageId'' = None"
      by (auto simp: catch_gated_failure)
    from h(1) valid h(2) r(1) obtain out con where
      t: "handler_netlify rt env ev = catch_gated env (check_reply rt r, out, con)"
      by (rule handler_netlify_valid [where x = "Inr r", simplified])
    from t r(2) show "generic_failure (response (handler_netlify rt env ev))"
      by (auto simp: catch_gated_failure)
    from t r(2) show "body_member (response (handler_netlify rt env ev)) ''messageId'' = None"
      by (auto simp: catch_gated_failure)
  next
    assume h: "vercel_post rq b" "configured env"
    from h(1) valid h(2) r(1) obtain out con where
      t: "handler_vercel rt env rq = catch_gated env (check_reply rt r, out, con)"
      by (rule handler_vercel_valid [where x = "Inr r", simplified])
    from t r(2) show "generic_failure (response (handler_vercel rt env rq))"
      by (auto simp: catch_gated_failure)
    from t r(2) show "body_member (response (handler_vercel rt env rq)) ''messageId'' = None"
      by (auto simp: catch_gated_failure)
  next
    assume h: "cors_post rt rq' b" "configured_cors rt env"
    from h(1) valid h(2) r(1) obtain out where
      t: "try_cors rt env rq' = (check_reply_cors rt r, out)"
      by (rule try_cors_replies [where x = "Inr r", simplified])
    from h(1) have p: "req_method rq' = asc ''POST''" by (simp add: cors_post_def)
    from t r(3) p show "generic_failure (fst (handler_cors rt env rq'))"
      by (auto simp: handler_cors_thrown)
    from t r(3) p show "body_member (fst (handler_cors rt env rq')) ''messageId'' = None"
      by (auto simp: handler_cors_thrown)
  qed
qed

theorem ok_without_result_fails_witness:
  "valid_input sample_body
   \<and> ok_without_result (sample_runtime (Inr (JObj [(asc ''ok'', JBool True)])))
   \<and> generic_failure
        (response (handler_netlify_topic (sample_runtime (Inr (JObj [(asc ''ok'', JBool True)])))
           sample_env sample_event))
   \<and> generic_failure
        (fst (handler_cors (sample_runtime (Inr (JObj [(asc ''ok'', JBool True)])))
           sample_env sample_req))"
proof -
  have f: "ok_without_result (sample_runtime (Inr (JObj [(asc ''ok'', JBool True)])))"
    unfolding ok_without_result_def
    by (rule exI [of _ "JObj [(asc ''ok'', JBool True)]"]) (simp add: sample_replies asc_def)
  show ?thesis
    using f sample_valid sample_posts sample_configured
      ok_without_result_fails [OF sample_valid f, of sample_event sample_env sample_req sample_req]
    by blast
qed

text \<open>
  C3. With valid body fields and an environment in which the bot token or the chat id is
  missing or empty, every variant answers 500 with \<^verbatim>\<open>success: false\<close> and its
  not-configured message, and sends nothing.
\<close>

theorem missing_configuration_stops:
  assumes valid: "valid_input b" and conf: "\<not> configured env"
  shows
    "(netlify_post rt ev b \<longrightarrow>
        response (handler_netlify_topic rt env ev) =
          json_response 500
            [(''success'', JBool False), (''error'', JStr (asc ''Telegram bot not configured''))]
        \<and> sent (handler_netlify_topic rt env ev) = []
        \<and> response (handler_netlify rt env ev) =
          json_response 500
            [(''success'', JBool False), (''error'', JStr (asc ''Telegram bot not configured''))]
        \<and> sent (handler_netlify rt env ev) = [])
     \<and> (vercel_post rq b \<longrightarrow>
        response (handler_vercel rt env rq) = not_configured_long
        \<and> sent (handler_vercel rt env rq) = [])
     \<and> (cors_post rt rq' b \<longrightarrow>
        handler_cors rt env rq' = (not_configured_long\<lparr>headers := cors_headers\<rparr>, []))"
proof -
  from valid obtain n e m where v:
    "member_of b (asc ''name'') = JStr n" "n \<noteq> []"
    "member_of b (asc ''email'') = JStr e" "e \<noteq> []" "regex_test emailRegex e"
    "member_of b (asc ''message'') = JStr m" "m \<noteq> []"
    "optional_text (member_of b (asc ''company''))"
    "b \<noteq> JUndefined" "b \<noteq> JNull"
    by (rule valid_inputE)
  note c = not_configured_cases [OF conf]
  have src: "js_or b (JObj []) = b"
    using valid by (simp add: js_or_def valid_input_truthy)
  show ?thesis
  proof (intro conjI impI)
    assume "netlify_post rt ev b"
    then have p: "httpMethod ev = asc ''POST''" "json_parse rt (to_string rt (body ev)) = Some b"
      by (simp_all add: netlify_post_def)
    have t: "try_netlify_topic rt env ev =
        (Inr (json_response 500
           [(''success'', JBool False), (''error'', JStr (asc ''Telegram bot not configured''))]),
         [], [ConsoleError (asc ''Telegram configuration missing'')])"
      unfolding try_netlify_topic_def using c by (simp add: p v Let_def)
    have u: "try_netlify rt env ev =
        (Inr (json_response 500
           [(''success'', JBool False), (''error'', JStr (asc ''Telegram bot not configured''))]),
         [], [ConsoleError (asc ''Telegram configuration missing'')])"
      unfolding try_netlify_def using c by (simp add: p v Let_def)
    show "response (handler_netlify_topic rt env ev) =
          json_response 500
            [(''success'', JBool False), (''error'', JStr (asc ''Telegram bot not configured''))]"
      by (simp add: handler_netlify_topic_def p t catch_gated_response)
    show "sent (handler_netlify_topic rt env ev) = []"
      by (simp add: handler_netlify_topic_def p t catch_gated_response)
    show "response (handler_netlify rt env ev) =
          json_response 500
            [(''success'', JBool False), (''error'', JStr (asc ''Telegram bot not configured''))]"
      by (simp add: handler_netlify_def p u catch_gated_response)
    show "sent (handler_netlify rt env ev) = []"
      by (simp add: handler_netlify_def p u catch_gated_response)
  next
    assume "vercel_post rq b"
    then have p: "req_method rq = asc ''POST''" "req_body rq = b"
      by (simp_all add: vercel_post_def)
    have t: "try_vercel rt env rq =
        (Inr not_configured_long, [], [ConsoleError (asc ''Telegram configuration missing'')])"
      unfolding try_vercel_def using c by (simp add: p v Let_def)
    show "response (handler_vercel rt env rq) = not_configured_long"
      by (simp add: handler_vercel_def p t catch_gated_response)
    show "sent (handler_vercel rt env rq) = []"
      by (simp add: handler_vercel_def p t catch_gated_response)
  next
    assume post: "cors_post rt rq' b"
    then have p: "req_method rq' = asc ''POST''" by (simp add: cors_post_def)
    have t: "try_cors rt env rq' = (Inr not_configured_long, [])"
      unfolding try_cors_def cors_post_parsed [OF post] using c by (simp add: src v Let_def)
    show "handler_cors rt env rq' = (not_configured_long\<lparr>headers := cors_headers\<rparr>, [])"
      by (simp add: handler_cors_def p t post_not_options)
  qed
qed

theorem missing_configuration_stops_witness:
  "valid_input sample_body
   \<and> \<not> configured (sample_env\<lparr>TELEGRAM_CHAT_ID := None\<rparr>)
   \<and> netlify_post (sample_runtime (Inr ok_reply)) sample_event sample_body
   \<and> statusCode (response (handler_netlify_topic (sample_runtime (Inr ok_reply))
        (sample_env\<lparr>TELEGRAM_CHAT_ID := None\<rparr>) sample_event)) = 500
   \<and> sent (handler_netlify_topic (sample_runtime (Inr ok_reply))
        (sample_env\<lparr>TELEGRAM_CHAT_ID := None\<rparr>) sample_event) = []
   \<and> snd (handler_cors (sample_runtime (Inr ok_reply))
        (sample_env\<lparr>TELEGRAM_CHAT_ID := None\<rparr>) sample_req) = []"
proof -
  have c: "\<not> configured (sample_env\<lparr>TELEGRAM_CHAT_ID := None\<rparr>)"
    by (simp add: configured_def sample_env_def env_value_def)
  show ?thesis
    using c sample_valid sample_posts
      missing_configuration_stops [OF sample_valid c, of "sample_runtime (Inr ok_reply)"
        sample_event sample_req sample_req]
    by (simp add: json_response_def)
qed

text \<open>
  C5. A request whose method is not POST gets 405 with \<^verbatim>\<open>success: false\<close> and an error
  message that begins with \<^verbatim>\<open>Method not allowed\<close>, and nothing is sent; so do the Netlify
  functions and the plain Vercel function for every such method, and the CORS-aware
  function for every such method but OPTIONS, which it answers with an empty 200 that
  carries the four permissive CORS headers.
\<close>

theorem method_gate:
  "(httpMethod ev \<noteq> asc ''POST'' \<longrightarrow>
      method_rejected (response (handler_netlify_topic rt env ev))
      \<and> sent (handler_netlify_topic rt env ev) = []
      \<and> method_rejected (response (handler_netlify rt env ev))
      \<and> sent (handler_netlify rt env ev) = [])
   \<and> (req_method rq \<noteq> asc ''POST'' \<longrightarrow>
      method_rejected (response (handler_vercel rt env rq))
      \<and> sent (handler_vercel rt env rq) = [])
   \<and> (req_method rq \<noteq> asc ''POST'' \<and> req_method rq \<noteq> asc ''OPTIONS'' \<longrightarrow>
      method_rejected (fst (handler_cors rt env rq))
      \<and> headers (fst (handler_cors rt env rq)) = cors_headers
      \<and> snd (handler_cors rt env rq) = [])
   \<and> (req_method rq = asc ''OPTIONS'' \<longrightarrow>
      handler_cors rt env rq = (\<lparr>statusCode = 200, headers = cors_headers, json = None\<rparr>, []))
   \<and> map_of cors_headers (asc ''Access-Control-Allow-Origin'') = Some (asc ''*'')
   \<and> map_of cors_headers (asc ''Access-Control-Allow-Methods'') = Some (asc ''POST, OPTIONS'')
   \<and> map_of cors_headers (asc ''Access-Control-Allow-Headers'')
       = Some (asc ''Content-Type, Authorization'')
   \<and> map_of cors_headers (asc ''Access-Control-Max-Age'') = Some (asc ''86400'')"
proof -
  have m: "method_rejected method_not_allowed"
    by (simp add: method_rejected_def method_not_allowed_def body_member_def json_response_def
        json_members_def asc_def)
  have r: "method_rejected ((json_response 405
               [(''success'', JBool False),
                (''error'', JStr (asc ''Method not allowed. Use POST. Received: '' @ x))])
             \<lparr>headers := cors_headers\<rparr>)" for x
    by (simp add: method_rejected_def body_member_def json_response_def json_members_def asc_def)
  show ?thesis
    by (intro conjI impI)
       (simp_all add: handler_netlify_topic_def handler_netlify_def handler_vercel_def
          handler_cors_def m r, simp_all add: json_response_def cors_headers_def asc_def)
qed

theorem method_gate_witness:
  "method_rejected (response (handler_netlify_topic (sample_runtime (Inr ok_reply)) sample_env
      (sample_event\<lparr>httpMethod := asc ''GET''\<rparr>)))
   \<and> method_rejected (fst (handler_cors (sample_runtime (Inr ok_reply)) sample_env
      (sample_req\<lparr>req_method := asc ''GET''\<rparr>)))
   \<and> statusCode (fst (handler_cors (sample_runtime (Inr ok_reply)) sample_env
      (sample_req\<lparr>req_method := asc ''OPTIONS''\<rparr>))) = 200"
  using method_gate [of "sample_event\<lparr>httpMethod := asc ''GET''\<rparr>"
      "sample_runtime (Inr ok_reply)" sample_env "sample_req\<lparr>req_method := asc ''GET''\<rparr>"]
    method_gate [of sample_event
      "sample_runtime (Inr ok_reply)" sample_env "sample_req\<lparr>req_method := asc ''OPTIONS''\<rparr>"]
  by (simp add: sample_event_def sample_req_def asc_def)








text \<open>
  C4 fails on a body that parses to \<^verbatim>\<open>null\<close>. Such a body lacks all three fields. The
  two Netlify functions and the plain Vercel function destructure it without a guard: the
  TypeError is caught and the response is the 500 with the generic message, not the 400
  with the missing-fields message. The CORS-aware variant destructures
  \<^verbatim>\<open>body || {}\<close> and answers that 400.
\<close>

theorem null_body_is_not_rejected:
  "lacks_required JNull
   \<and> (netlify_post rt ev JNull \<longrightarrow>
        generic_failure (response (handler_netlify_topic rt env ev))
        \<and> response (handler_netlify_topic rt env ev) \<noteq> missing_fields
        \<and> generic_failure (response (handler_netlify rt env ev))
        \<and> response (handler_netlify rt env ev) \<noteq> missing_fields)
   \<and> (vercel_post rq JNull \<longrightarrow>
        generic_failure (response (handler_vercel rt env rq))
        \<and> response (handler_vercel rt env rq) \<noteq> missing_fields)
   \<and> (cors_post rt rq JNull \<longrightarrow>
        handler_cors rt env rq = (missing_fields\<lparr>headers := cors_headers\<rparr>, []))"
proof (intro conjI impI)
  show l: "lacks_required JNull" by (simp add: lacks_required_def)
  {
    assume "netlify_post rt ev JNull"
    then have p: "httpMethod ev = asc ''POST''" "json_parse rt (to_string rt (body ev)) = Some JNull"
      by (simp_all add: netlify_post_def)
    have t: "handler_netlify_topic rt env ev =
        catch_gated env (Inl (Thrown (fault_message rt (ReadOfNullish (asc ''name'')))), [], [])"
      by (simp add: handler_netlify_topic_def try_netlify_topic_def p)
    have u: "handler_netlify rt env ev =
        catch_gated env (Inl (Thrown (fault_message rt (ReadOfNullish (asc ''name'')))), [], [])"
      by (simp add: handler_netlify_def try_netlify_def p)
    show "generic_failure (response (handler_netlify_topic rt env ev))"
      by (simp only: t catch_gated_failure)
    then show "response (handler_netlify_topic rt env ev) \<noteq> missing_fields"
      using missing_fields_not_failure by auto
    show "generic_failure (response (handler_netlify rt env ev))"
      by (simp only: u catch_gated_failure)
    then show "response (handler_netlify rt env ev) \<noteq> missing_fields"
      using missing_fields_not_failure by auto
  }
  {
    assume "vercel_post rq JNull"
    then have p: "req_method rq = asc ''POST''" "req_body rq = JNull"
      by (simp_all add: vercel_post_def)
    have t: "handler_vercel rt env rq =
        catch_gated env (Inl (Thrown (fault_message rt (ReadOfNullish (asc ''name'')))), [], [])"
      by (simp add: handler_vercel_def try_vercel_def p)
    show "generic_failure (response (handler_vercel rt env rq))"
      by (simp only: t catch_gated_failure)
    then show "response (handler_vercel rt env rq) \<noteq> missing_fields"
      using missing_fields_not_failure by auto
  }
  {
    assume "cors_post rt rq JNull"
    then show "handler_cors rt env rq = (missing_fields\<lparr>headers := cors_headers\<rparr>, [])"
      using l by (rule missing_fields_rejected(1) [rotated])
  }
qed

theorem null_body_is_not_rejected_witness:
  "netlify_post (sample_runtime (Inr ok_reply)) (sample_event\<lparr>body := JStr (asc ''null'')\<rparr>) JNull
   \<and> generic_failure (response (handler_netlify_topic (sample_runtime (Inr ok_reply)) sample_env
        (sample_event\<lparr>body := JStr (asc ''null'')\<rparr>)))
   \<and> cors_post (sample_runtime (Inr ok_reply)) (sample_req\<lparr>req_body := JStr (asc ''null'')\<rparr>) JNull
   \<and> statusCode (fst (handler_cors (sample_runtime (Inr ok_reply)) sample_env
        (sample_req\<lparr>req_body := JStr (asc ''null'')\<rparr>))) = 400"
proof -
  have t: "asc ''null'' \<noteq> sample_text"
    by (simp add: asc_def sample_text_def)
  have n: "netlify_post (sample_runtime (Inr ok_reply))
             (sample_event\<lparr>body := JStr (asc ''null'')\<rparr>) JNull"
    using t by (simp add: netlify_post_def sample_runtime_def sample_event_def)
  have c: "cors_post (sample_runtime (Inr ok_reply))
             (sample_req\<lparr>req_body := JStr (asc ''null'')\<rparr>) JNull"
    using t by (simp add: cors_post_def sample_runtime_def sample_req_def)
  have m: "statusCode missing_fields = 400"
    by (simp add: missing_fields_def json_response_def)
  show ?thesis
    using n c m
      null_body_is_not_rejected [of "sample_runtime (Inr ok_reply)"
        "sample_event\<lparr>body := JStr (asc ''null'')\<rparr>" sample_env
        "sample_req\<lparr>req_body := JStr (asc ''null'')\<rparr>"]
    by simp
qed

text \<open>
  C6 fails on the Netlify functions. When \<^verbatim>\<open>JSON.parse\<close> rejects the body, the
  SyntaxError is caught by the handler's one \<^verbatim>\<open>catch\<close> block and the response is the 500
  with the generic message, not the 400 with \<^verbatim>\<open>Invalid JSON in request body\<close>. The
  CORS-aware variant catches the parse error itself and answers that 400, sending nothing.
\<close>

theorem malformed_json_is_server_error:
  "(httpMethod ev = asc ''POST'' \<and> json_parse rt (to_string rt (body ev)) = None \<longrightarrow>
      generic_failure (response (handler_netlify_topic rt env ev))
      \<and> \<not> invalid_json (response (handler_netlify_topic rt env ev))
      \<and> generic_failure (response (handler_netlify rt env ev))
      \<and> \<not> invalid_json (response (handler_netlify rt env ev)))
   \<and> (req_method rq = asc ''POST'' \<and> req_body rq = JStr raw \<and> json_parse rt raw = None \<longrightarrow>
      invalid_json (fst (handler_cors rt env rq)) \<and> snd (handler_cors rt env rq) = [])"
proof (intro conjI impI; (elim conjE)?)
  assume p: "httpMethod ev = asc ''POST''" "json_parse rt (to_string rt (body ev)) = None"
  have t: "handler_netlify_topic rt env ev =
      catch_gated env
        (Inl (Thrown (fault_message rt (InvalidJson (to_string rt (body ev))))), [], [])"
    by (simp add: handler_netlify_topic_def try_netlify_topic_def p)
  have u: "handler_netlify rt env ev =
      catch_gated env
        (Inl (Thrown (fault_message rt (InvalidJson (to_string rt (body ev))))), [], [])"
    by (simp add: handler_netlify_def try_netlify_def p)
  show g: "generic_failure (response (handler_netlify_topic rt env ev))"
    by (simp only: t catch_gated_failure)
  then show "\<not> invalid_json (response (handler_netlify_topic rt env ev))"
    by (simp add: generic_failure_def invalid_json_def)
  show h: "generic_failure (response (handler_netlify rt env ev))"
    by (simp only: u catch_gated_failure)
  then show "\<not> invalid_json (response (handler_netlify rt env ev))"
    by (simp add: generic_failure_def invalid_json_def)
next
  assume p: "req_method rq = asc ''POST''" "req_body rq = JStr raw" "json_parse rt raw = None"
  then have t: "try_cors rt env rq =
      (Inr (json_response 400
              [(''success'', JBool False),
               (''error'', JStr (asc ''Invalid JSON in request body''))]), [])"
    by (simp add: try_cors_def)
  show "invalid_json (fst (handler_cors rt env rq))"
    by (simp add: handler_cors_def p(1) t post_not_options invalid_json_def body_member_def
        json_response_def json_members_def asc_def)
  show "snd (handler_cors rt env rq) = []"
    by (simp add: handler_cors_def p(1) t post_not_options)
qed

theorem malformed_json_is_server_error_witness:
  "json_parse (sample_runtime (Inr ok_reply)) (asc ''{'') = None
   \<and> generic_failure (response (handler_netlify_topic (sample_runtime (Inr ok_reply)) sample_env
        (sample_event\<lparr>body := JStr (asc ''{'')\<rparr>)))
   \<and> statusCode (response (handler_netlify_topic (sample_runtime (Inr ok_reply)) sample_env
        (sample_event\<lparr>body := JStr (asc ''{'')\<rparr>))) = 500
   \<and> invalid_json (fst (handler_cors (sample_runtime (Inr ok_reply)) sample_env
        (sample_req\<lparr>req_body := JStr (asc ''{'')\<rparr>)))"
proof -
  have n: "json_parse (sample_runtime (Inr ok_reply)) (asc ''{'') = None"
    by (simp add: sample_runtime_def asc_def sample_text_def)
  have p: "httpMethod (sample_event\<lparr>body := JStr (asc ''{'')\<rparr>) = asc ''POST''"
    "req_method (sample_req\<lparr>req_body := JStr (asc ''{'')\<rparr>) = asc ''POST''"
    by (simp_all add: sample_event_def sample_req_def)
  show ?thesis
    using n p
      malformed_json_is_server_error [of "sample_event\<lparr>body := JStr (asc ''{'')\<rparr>"
        "sample_runtime (Inr ok_reply)" sample_env
        "sample_req\<lparr>req_body := JStr (asc ''{'')\<rparr>" "asc ''{''"]
    by (simp add: generic_failure_def)
qed

end
